theory Spec2Isabelle
  imports Complex_Main
begin

section \<open>Host values\<close>

text \<open>
  The library is applied to values of type \<^verbatim>\<open>unknown\<close>, so the embedding starts from a
  universe of JavaScript values. A number is a double: only its equality and its
  truthiness are ever used, so the finite ones are reals and the special ones are named.
  An object carries the identity of its reference (what \<^verbatim>\<open>===\<close> compares) and the
  properties that \<^verbatim>\<open>in\<close> and a property read see, own ones first. A property is a data
  property, an accessor property, whose read runs a getter of the caller, or a property
  of a proxy, whose \<^verbatim>\<open>has\<close> and \<^verbatim>\<open>get\<close> traps answer \<^verbatim>\<open>in\<close> and the read. A getter and a
  trap are represented by their outcome, a value returned or a value thrown: one whose
  answer changes from one read to the next, or that acts on the caller's world, is
  outside the model. Objects are snapshots: no function modelled here writes to one.

  What a \<^verbatim>\<open>throw\<close> carries: an \<^verbatim>\<open>Error\<close> built with its message (the library's own
  throws), the \<^verbatim>\<open>TypeError\<close> of the host for \<^verbatim>\<open>in\<close> on a primitive and for a property
  read on \<^verbatim>\<open>null\<close> or \<^verbatim>\<open>undefined\<close>, or any value that code of the caller throws.
\<close>

datatype number = NaN | Infinity bool | NegZero | Finite real

type_synonym ref = nat

datatype jsval =
    JUndefined
  | JNull
  | JBoolean bool
  | JNumber number
  | JBigInt int
  | JString string
  | JSymbol nat
  | JFunction ref "(string \<times> slot) list"
  | JObject ref "(string \<times> slot) list"
and slot =
    Data jsval
  | Accessor "exn + jsval"
  | Trapped "exn + bool" "exn + jsval"
and exn = Error string | TypeError string | Thrown jsval

type_synonym 'a res = "exn + 'a"

text \<open>
  A computation that may call functions supplied by the caller. Such a function may
  throw and may have any effect on the caller's world \<open>'s\<close>, so a computation takes the
  world and returns the new one with its result. The library has no state of its own:
  it changes the world only by calling a caller's function.
\<close>

type_synonym ('s, 'a) eff = "'s \<Rightarrow> 'a res \<times> 's"

type_synonym 's fn = "jsval \<Rightarrow> ('s, jsval) eff"

type_synonym 's validator = "jsval \<Rightarrow> ('s, bool) eff"


definition ret :: "'a \<Rightarrow> ('s, 'a) eff" where
  "ret x = (\<lambda>s. (Inr x, s))"

definition throw :: "exn \<Rightarrow> ('s, 'a) eff" where
  "throw e = (\<lambda>s. (Inl e, s))"

definition lift :: "'a res \<Rightarrow> ('s, 'a) eff" where
  "lift r = (\<lambda>s. (r, s))"

definition andThen :: "('s, 'a) eff \<Rightarrow> ('a \<Rightarrow> ('s, 'b) eff) \<Rightarrow> ('s, 'b) eff" where
  "andThen m k = (\<lambda>s. case m s of (Inl e, s') \<Rightarrow> (Inl e, s') | (Inr x, s') \<Rightarrow> k x s')"

text \<open>\<^verbatim>\<open>a && b\<close> and \<^verbatim>\<open>a || b\<close> on booleans: the right operand runs only when needed.\<close>

definition land :: "('s, bool) eff \<Rightarrow> ('s, bool) eff \<Rightarrow> ('s, bool) eff" where
  "land a b = andThen a (\<lambda>x. if x then b else ret False)"

definition lor :: "('s, bool) eff \<Rightarrow> ('s, bool) eff \<Rightarrow> ('s, bool) eff" where
  "lor a b = andThen a (\<lambda>x. if x then ret True else b)"

definition lnot :: "('s, bool) eff \<Rightarrow> ('s, bool) eff" where
  "lnot a = andThen a (\<lambda>x. ret (\<not> x))"

subsection \<open>Operators of the host\<close>

fun typeof :: "jsval \<Rightarrow> string" where
  "typeof JUndefined = ''undefined''"
| "typeof JNull = ''object''"
| "typeof (JBoolean b) = ''boolean''"
| "typeof (JNumber n) = ''number''"
| "typeof (JBigInt i) = ''bigint''"
| "typeof (JString s) = ''string''"
| "typeof (JSymbol n) = ''symbol''"
| "typeof (JFunction r ps) = ''function''"
| "typeof (JObject r ps) = ''object''"

fun number_equals :: "number \<Rightarrow> number \<Rightarrow> bool" where
  "number_equals NaN y = False"
| "number_equals x NaN = False"
| "number_equals NegZero NegZero = True"
| "number_equals NegZero (Finite y) = (y = 0)"
| "number_equals (Finite x) NegZero = (x = 0)"
| "number_equals (Finite x) (Finite y) = (x = y)"
| "number_equals (Infinity a) (Infinity b) = (a = b)"
| "number_equals x y = False"

text \<open>\<^verbatim>\<open>a === b\<close>: by value on primitives (\<^verbatim>\<open>NaN\<close> equals nothing), by reference on objects.\<close>

fun strict_equals :: "jsval \<Rightarrow> jsval \<Rightarrow> bool" where
  "strict_equals JUndefined JUndefined = True"
| "strict_equals JNull JNull = True"
| "strict_equals (JBoolean a) (JBoolean b) = (a = b)"
| "strict_equals (JNumber a) (JNumber b) = number_equals a b"
| "strict_equals (JBigInt a) (JBigInt b) = (a = b)"
| "strict_equals (JString a) (JString b) = (a = b)"
| "strict_equals (JSymbol a) (JSymbol b) = (a = b)"
| "strict_equals (JFunction r ps) (JFunction r' ps') = (r = r')"
| "strict_equals (JObject r ps) (JObject r' ps') = (r = r')"
| "strict_equals a b = False"

text \<open>\<^verbatim>\<open>v == null\<close>: loose equality with \<^verbatim>\<open>null\<close> holds for \<^verbatim>\<open>null\<close> and \<^verbatim>\<open>undefined\<close> only.\<close>

fun loose_equals_null :: "jsval \<Rightarrow> bool" where
  "loose_equals_null JNull = True"
| "loose_equals_null JUndefined = True"
| "loose_equals_null v = False"

text \<open>The truthiness a conditional tests (\<^verbatim>\<open>ToBoolean\<close>).\<close>

fun truthy :: "jsval \<Rightarrow> bool" where
  "truthy JUndefined = False"
| "truthy JNull = False"
| "truthy (JBoolean b) = b"
| "truthy (JNumber NaN) = False"
| "truthy (JNumber NegZero) = False"
| "truthy (JNumber (Finite x)) = (x \<noteq> 0)"
| "truthy (JNumber (Infinity b)) = True"
| "truthy (JBigInt i) = (i \<noteq> 0)"
| "truthy (JString s) = (s \<noteq> [])"
| "truthy (JSymbol n) = True"
| "truthy (JFunction r ps) = True"
| "truthy (JObject r ps) = True"

text \<open>
  What \<^verbatim>\<open>in\<close> and a read answer for one property of an object: a data property is
  there and reads as its value, an accessor property is there and reads as its getter
  returns or throws, a property of a proxy answers as the traps do, and a property that
  is absent reads as \<^verbatim>\<open>undefined\<close>.
\<close>

fun has_of :: "slot option \<Rightarrow> bool res" where
  "has_of None = Inr False"
| "has_of (Some (Data v)) = Inr True"
| "has_of (Some (Accessor g)) = Inr True"
| "has_of (Some (Trapped h g)) = h"

fun read_of :: "slot option \<Rightarrow> jsval res" where
  "read_of None = Inr JUndefined"
| "read_of (Some (Data v)) = Inr v"
| "read_of (Some (Accessor g)) = g"
| "read_of (Some (Trapped h g)) = g"

text \<open>\<^verbatim>\<open>k in v\<close> throws a \<^verbatim>\<open>TypeError\<close> unless \<open>v\<close> is an object.\<close>

fun js_in :: "string \<Rightarrow> jsval \<Rightarrow> bool res" where
  "js_in k (JObject r ps) = has_of (map_of ps k)"
| "js_in k (JFunction r ps) = has_of (map_of ps k)"
| "js_in k v = Inl (TypeError ''Cannot use in operator on a non-object'')"

text \<open>
  \<^verbatim>\<open>v.k\<close> throws on \<^verbatim>\<open>null\<close> and \<^verbatim>\<open>undefined\<close>. On a primitive the library reads
  \<^verbatim>\<open>type\<close>, \<^verbatim>\<open>value\<close> and \<^verbatim>\<open>error\<close> only, which no wrapper of a primitive has.
\<close>

fun get :: "jsval \<Rightarrow> string \<Rightarrow> jsval res" where
  "get JUndefined k = Inl (TypeError ''Cannot read properties of undefined'')"
| "get JNull k = Inl (TypeError ''Cannot read properties of null'')"
| "get (JObject r ps) k = read_of (map_of ps k)"
| "get (JFunction r ps) k = read_of (map_of ps k)"
| "get v k = Inr JUndefined"

section \<open>The four variants\<close>

text \<open>
  Each constructor evaluates an object literal, which makes a new object: \<open>\<rho>\<close> is the
  identity of that object. Every function below that builds a variant takes the
  identity of the object it builds in the same way.
\<close>

definition Ok :: "ref \<Rightarrow> jsval \<Rightarrow> jsval" where
  "Ok \<rho> v = JObject \<rho> [(''type'', Data (JString ''ok'')), (''value'', Data v)]"

definition Err :: "ref \<Rightarrow> jsval \<Rightarrow> jsval" where
  "Err \<rho> e = JObject \<rho> [(''type'', Data (JString ''err'')), (''error'', Data e)]"

definition Loading :: "ref \<Rightarrow> jsval" where
  "Loading \<rho> = JObject \<rho> [(''type'', Data (JString ''loading''))]"

definition NotAsked :: "ref \<Rightarrow> jsval" where
  "NotAsked \<rho> = JObject \<rho> [(''type'', Data (JString ''not-asked''))]"

section \<open>Type guards\<close>

definition isOk :: "jsval \<Rightarrow> 's validator option \<Rightarrow> ('s, bool) eff" where
  "isOk v validator =
     land (ret (typeof v = ''object''))
    (land (ret (\<not> strict_equals v JNull))
    (land (lift (js_in ''type'' v))
    (land (andThen (lift (get v ''type'')) (\<lambda>t. ret (strict_equals t (JString ''ok''))))
    (land (lift (js_in ''value'' v))
          (case validator of
             Some p \<Rightarrow> andThen (lift (get v ''value'')) p
           | None \<Rightarrow> ret True)))))"

definition isErr :: "jsval \<Rightarrow> 's validator option \<Rightarrow> ('s, bool) eff" where
  "isErr v validator =
     land (ret (typeof v = ''object''))
    (land (ret (\<not> strict_equals v JNull))
    (land (lift (js_in ''type'' v))
    (land (andThen (lift (get v ''type'')) (\<lambda>t. ret (strict_equals t (JString ''err''))))
    (land (lift (js_in ''error'' v))
          (case validator of
             Some p \<Rightarrow> andThen (lift (get v ''error'')) p
           | None \<Rightarrow> ret True)))))"

definition isLoading :: "jsval \<Rightarrow> ('s, bool) eff" where
  "isLoading v =
     land (ret (typeof v = ''object''))
    (land (ret (\<not> strict_equals v JNull))
    (land (lift (js_in ''type'' v))
          (andThen (lift (get v ''type'')) (\<lambda>t. ret (strict_equals t (JString ''loading''))))))"

definition isNotAsked :: "jsval \<Rightarrow> ('s, bool) eff" where
  "isNotAsked v =
     land (ret (typeof v = ''object''))
    (land (ret (\<not> strict_equals v JNull))
    (land (lift (js_in ''type'' v))
          (andThen (lift (get v ''type'')) (\<lambda>t. ret (strict_equals t (JString ''not-asked''))))))"

definition isResult ::
  "jsval \<Rightarrow> 's validator option \<Rightarrow> 's validator option \<Rightarrow> ('s, bool) eff" where
  "isResult v valueValidator errorValidator =
     andThen (land (lnot (isOk v None)) (lnot (isErr v None))) (\<lambda>neither.
       if neither then ret False
       else andThen (isOk v None) (\<lambda>ok.
         case (ok, valueValidator) of
           (True, Some p) \<Rightarrow> andThen (lift (get v ''value'')) p
         | _ \<Rightarrow> andThen (isErr v None) (\<lambda>err.
             case (err, errorValidator) of
               (True, Some q) \<Rightarrow> andThen (lift (get v ''error'')) q
             | _ \<Rightarrow> ret True)))"

definition isRemoteResult ::
  "jsval \<Rightarrow> 's validator option \<Rightarrow> 's validator option \<Rightarrow> ('s, bool) eff" where
  "isRemoteResult v valueValidator errorValidator =
     andThen (lor (isLoading v) (isNotAsked v)) (\<lambda>pending.
       if pending then ret True
       else isResult v valueValidator errorValidator)"

section \<open>Transformations\<close>

definition mapOk :: "ref \<Rightarrow> jsval \<Rightarrow> 's fn \<Rightarrow> ('s, jsval) eff" where
  "mapOk \<rho> result mapper =
     andThen (isOk result None) (\<lambda>ok.
       if ok then
         andThen (lift (get result ''value'')) (\<lambda>x.
         andThen (mapper x) (\<lambda>y. ret (Ok \<rho> y)))
       else ret result)"

definition flatMapOk :: "jsval \<Rightarrow> 's fn \<Rightarrow> ('s, jsval) eff" where
  "flatMapOk result mapper =
     andThen (isOk result None) (\<lambda>ok.
       if ok then andThen (lift (get result ''value'')) mapper
       else ret result)"

definition mapErr :: "ref \<Rightarrow> jsval \<Rightarrow> 's fn \<Rightarrow> ('s, jsval) eff" where
  "mapErr \<rho> result mapper =
     andThen (isErr result None) (\<lambda>err.
       if err then
         andThen (lift (get result ''error'')) (\<lambda>x.
         andThen (mapper x) (\<lambda>y. ret (Err \<rho> y)))
       else ret result)"

definition flatMapErr :: "jsval \<Rightarrow> 's fn \<Rightarrow> ('s, jsval) eff" where
  "flatMapErr result mapper =
     andThen (isErr result None) (\<lambda>err.
       if err then andThen (lift (get result ''error'')) mapper
       else ret result)"

definition unwrap :: "jsval \<Rightarrow> ('s, jsval) eff" where
  "unwrap result =
     andThen (isOk result None) (\<lambda>ok.
       if ok then lift (get result ''value'')
       else throw (Error ''Tried to unwrap a non-ok result''))"

definition unwrapOr :: "jsval \<Rightarrow> jsval \<Rightarrow> ('s, jsval) eff" where
  "unwrapOr result defaultValue =
     andThen (isOk result None) (\<lambda>ok.
       if ok then lift (get result ''value'')
       else ret defaultValue)"

definition getOrElse :: "jsval \<Rightarrow> jsval \<Rightarrow> ('s, jsval) eff" where
  "getOrElse result defaultValue = unwrapOr result defaultValue"

definition bimap :: "ref \<Rightarrow> jsval \<Rightarrow> 's fn \<Rightarrow> 's fn \<Rightarrow> ('s, jsval) eff" where
  "bimap \<rho> result okMapper errMapper =
     andThen (isOk result None) (\<lambda>ok.
       if ok then
         andThen (lift (get result ''value'')) (\<lambda>x.
         andThen (okMapper x) (\<lambda>y. ret (Ok \<rho> y)))
       else andThen (isErr result None) (\<lambda>err.
         if err then
           andThen (lift (get result ''error'')) (\<lambda>x.
           andThen (errMapper x) (\<lambda>y. ret (Err \<rho> y)))
         else throw (Error ''Invalid result type'')))"

section \<open>Pattern dispatch\<close>

definition foldResult :: "jsval \<Rightarrow> 's fn \<Rightarrow> 's fn \<Rightarrow> ('s, jsval) eff" where
  "foldResult result onOk onErr =
     andThen (isOk result None) (\<lambda>ok.
       if ok then andThen (lift (get result ''value'')) onOk
       else andThen (isErr result None) (\<lambda>err.
         if err then andThen (lift (get result ''error'')) onErr
         else throw (Error ''Invalid result type'')))"

section \<open>Equality\<close>


section \<open>Conversions\<close>

definition fromNullable :: "ref \<Rightarrow> jsval \<Rightarrow> jsval \<Rightarrow> jsval" where
  "fromNullable \<rho> v error = (if \<not> loose_equals_null v then Ok \<rho> v else Err \<rho> error)"

definition fromUndefined :: "ref \<Rightarrow> jsval \<Rightarrow> jsval \<Rightarrow> jsval" where
  "fromUndefined \<rho> v error = (if \<not> strict_equals v JUndefined then Ok \<rho> v else Err \<rho> error)"

definition fromNullish :: "ref \<Rightarrow> jsval \<Rightarrow> jsval \<Rightarrow> jsval" where
  "fromNullish \<rho> v error = (if loose_equals_null v then Err \<rho> error else Ok \<rho> v)"

definition fromFalsy :: "ref \<Rightarrow> jsval \<Rightarrow> jsval \<Rightarrow> jsval" where
  "fromFalsy \<rho> v error = (if truthy v then Ok \<rho> v else Err \<rho> error)"

text \<open>
  A promise as \<^verbatim>\<open>Promise.resolve\<close> and \<^verbatim>\<open>Promise.reject\<close> hand it back. \<^verbatim>\<open>Promise.reject\<close>
  gives a promise rejected with the reason. \<^verbatim>\<open>Promise.resolve\<close> gives a promise fulfilled
  with the value, unless the value is an object or a function: then it reads \<^verbatim>\<open>then\<close>; a
  read that throws rejects the promise with what was thrown, and a \<^verbatim>\<open>then\<close> that is a
  function makes the promise follow the thenable, pending until that settles it.
\<close>

datatype promise = Resolved jsval | Rejected jsval | RejectedBy exn | Following jsval

definition promise_resolve :: "jsval \<Rightarrow> promise" where
  "promise_resolve v =
     (if (typeof v = ''object'' \<and> \<not> strict_equals v JNull) \<or> typeof v = ''function'' then
        (case get v ''then'' of
           Inl e \<Rightarrow> RejectedBy e
         | Inr t \<Rightarrow> if typeof t = ''function'' then Following v else Resolved v)
      else Resolved v)"

definition toPromise :: "jsval \<Rightarrow> ('s, promise) eff" where
  "toPromise result =
     andThen (isOk result None) (\<lambda>ok.
       if ok then andThen (lift (get result ''value'')) (\<lambda>x. ret (promise_resolve x))
       else andThen (isErr result None) (\<lambda>err.
         if err then andThen (lift (get result ''error'')) (\<lambda>x. ret (Rejected x))
         else throw (Error ''Cannot convert Loading or NotAsked to Promise'')))"

section \<open>Comparing outcomes\<close>

text \<open>
  A law such as \<^verbatim>\<open>mapOk(r, identity) == r\<close> compares a variant the library has just built
  with one that existed before: two objects, never one reference. \<open>alike\<close> is the
  comparison such a law means: the same value, or two objects with the same properties
  (the payloads themselves being the same values).
\<close>

fun alike :: "jsval \<Rightarrow> jsval \<Rightarrow> bool" where
  "alike (JObject r ps) (JObject r' ps') = (ps = ps')"
| "alike a b = (a = b)"

text \<open>Two runs agree: the same world, and alike results or the same thrown value.\<close>

definition same_outcome :: "jsval res \<times> 's \<Rightarrow> jsval res \<times> 's \<Rightarrow> bool" where
  "same_outcome x y =
     (snd x = snd y \<and>
      (case (fst x, fst y) of
         (Inr a, Inr b) \<Rightarrow> alike a b
       | (Inl e, Inl e') \<Rightarrow> e = e'
       | _ \<Rightarrow> False))"

section \<open>Values that are read without a throw\<close>

text \<open>
  \<open>quiet v\<close>: the membership tests and the reads that the library performs on \<open>v\<close>
  throw nothing. Every primitive is quiet, and so is every object whose \<^verbatim>\<open>type\<close>,
  \<^verbatim>\<open>value\<close> and \<^verbatim>\<open>error\<close> are data properties or absent.
\<close>

definition returns :: "'a res \<Rightarrow> bool" where
  "returns r = (case r of Inl e \<Rightarrow> False | Inr x \<Rightarrow> True)"

definition quiet :: "jsval \<Rightarrow> bool" where
  "quiet v =
     (if typeof v = ''object'' \<and> \<not> strict_equals v JNull then
        returns (js_in ''type'' v) \<and> returns (get v ''type'') \<and>
        returns (js_in ''value'' v) \<and> returns (get v ''value'') \<and>
        returns (js_in ''error'' v) \<and> returns (get v ''error'')
      else True)"

section \<open>The guards on each kind of value\<close>

lemmas eff_defs = ret_def throw_def lift_def andThen_def land_def lor_def lnot_def

lemma strict_equals_JString [simp]: "strict_equals t (JString k) = (t = JString k)"
  by (cases t) auto

lemma isOk_JObject:
  "isOk (JObject r ps) vo s =
     (case has_of (map_of ps ''type'') of
        Inl e \<Rightarrow> (Inl e, s)
      | Inr h \<Rightarrow>
          if \<not> h then (Inr False, s)
          else (case read_of (map_of ps ''type'') of
            Inl e \<Rightarrow> (Inl e, s)
          | Inr t \<Rightarrow>
              if t \<noteq> JString ''ok'' then (Inr False, s)
              else (case has_of (map_of ps ''value'') of
                Inl e \<Rightarrow> (Inl e, s)
              | Inr h' \<Rightarrow>
                  if \<not> h' then (Inr False, s)
                  else (case vo of
                    None \<Rightarrow> (Inr True, s)
                  | Some p \<Rightarrow>
                      (case read_of (map_of ps ''value'') of
                         Inl e \<Rightarrow> (Inl e, s)
                       | Inr x \<Rightarrow> p x s)))))"
  by (simp add: isOk_def eff_defs split: sum.splits option.splits)

lemma isErr_JObject:
  "isErr (JObject r ps) vo s =
     (case has_of (map_of ps ''type'') of
        Inl e \<Rightarrow> (Inl e, s)
      | Inr h \<Rightarrow>
          if \<not> h then (Inr False, s)
          else (case read_of (map_of ps ''type'') of
            Inl e \<Rightarrow> (Inl e, s)
          | Inr t \<Rightarrow>
              if t \<noteq> JString ''err'' then (Inr False, s)
              else (case has_of (map_of ps ''error'') of
                Inl e \<Rightarrow> (Inl e, s)
              | Inr h' \<Rightarrow>
                  if \<not> h' then (Inr False, s)
                  else (case vo of
                    None \<Rightarrow> (Inr True, s)
                  | Some p \<Rightarrow>
                      (case read_of (map_of ps ''error'') of
                         Inl e \<Rightarrow> (Inl e, s)
                       | Inr x \<Rightarrow> p x s)))))"
  by (simp add: isErr_def eff_defs split: sum.splits option.splits)

lemma isLoading_JObject:
  "isLoading (JObject r ps) s =
     (case has_of (map_of ps ''type'') of
        Inl e \<Rightarrow> (Inl e, s)
      | Inr h \<Rightarrow>
          if \<not> h then (Inr False, s)
          else (case read_of (map_of ps ''type'') of
            Inl e \<Rightarrow> (Inl e, s)
          | Inr t \<Rightarrow> (Inr (t = JString ''loading''), s)))"
  by (simp add: isLoading_def eff_defs split: sum.splits option.splits)

lemma isNotAsked_JObject:
  "isNotAsked (JObject r ps) s =
     (case has_of (map_of ps ''type'') of
        Inl e \<Rightarrow> (Inl e, s)
      | Inr h \<Rightarrow>
          if \<not> h then (Inr False, s)
          else (case read_of (map_of ps ''type'') of
            Inl e \<Rightarrow> (Inl e, s)
          | Inr t \<Rightarrow> (Inr (t = JString ''not-asked''), s)))"
  by (simp add: isNotAsked_def eff_defs split: sum.splits option.splits)

lemma isOk_other:
  assumes "\<And>r ps. v \<noteq> JObject r ps"
  shows "isOk v vo s = (Inr False, s)"
proof (cases v)
  case (JObject r ps)
  with assms [of r ps] show ?thesis by simp
qed (simp_all add: isOk_def eff_defs)

lemma isErr_other:
  assumes "\<And>r ps. v \<noteq> JObject r ps"
  shows "isErr v vo s = (Inr False, s)"
proof (cases v)
  case (JObject r ps)
  with assms [of r ps] show ?thesis by simp
qed (simp_all add: isErr_def eff_defs)

lemma isLoading_other:
  assumes "\<And>r ps. v \<noteq> JObject r ps"
  shows "isLoading v s = (Inr False, s)"
proof (cases v)
  case (JObject r ps)
  with assms [of r ps] show ?thesis by simp
qed (simp_all add: isLoading_def eff_defs)

lemma isNotAsked_other:
  assumes "\<And>r ps. v \<noteq> JObject r ps"
  shows "isNotAsked v s = (Inr False, s)"
proof (cases v)
  case (JObject r ps)
  with assms [of r ps] show ?thesis by simp
qed (simp_all add: isNotAsked_def eff_defs)

lemmas guard_simps =
  isOk_JObject isErr_JObject isLoading_JObject isNotAsked_JObject
  isOk_other isErr_other isLoading_other isNotAsked_other

lemma typeof_object: "typeof v = ''object'' \<longleftrightarrow> v = JNull \<or> (\<exists>r ps. v = JObject r ps)"
  by (cases v) auto

text \<open>A guard without a validator: a boolean or a throw, in the world it started in.\<close>

lemma isOk_None_cases:
  "isOk v None s = (Inr True, s) \<or> isOk v None s = (Inr False, s) \<or>
   (\<exists>e. isOk v None s = (Inl e, s))"
  by (cases v) (simp_all add: guard_simps split: sum.splits)

lemma isErr_None_cases:
  "isErr v None s = (Inr True, s) \<or> isErr v None s = (Inr False, s) \<or>
   (\<exists>e. isErr v None s = (Inl e, s))"
  by (cases v) (simp_all add: guard_simps split: sum.splits)

lemma isOk_world: "isOk v None s = (a, s') \<Longrightarrow> s' = s"
  using isOk_None_cases [of v s] by (elim disjE exE) simp_all

lemma isErr_world: "isErr v None s = (a, s') \<Longrightarrow> s' = s"
  using isErr_None_cases [of v s] by (elim disjE exE) simp_all

lemma isOk_TrueD:
  "isOk v None s = (Inr True, s) \<Longrightarrow>
     (\<exists>r ps. v = JObject r ps) \<and> js_in ''type'' v = Inr True \<and>
     get v ''type'' = Inr (JString ''ok'') \<and> js_in ''value'' v = Inr True"
  by (cases v) (simp_all add: guard_simps split: sum.splits if_splits)

lemma isErr_TrueD:
  "isErr v None s = (Inr True, s) \<Longrightarrow>
     (\<exists>r ps. v = JObject r ps) \<and> js_in ''type'' v = Inr True \<and>
     get v ''type'' = Inr (JString ''err'') \<and> js_in ''error'' v = Inr True"
  by (cases v) (simp_all add: guard_simps split: sum.splits if_splits)

lemma isLoading_TrueD:
  "isLoading v s = (Inr True, s) \<Longrightarrow>
     (\<exists>r ps. v = JObject r ps) \<and> js_in ''type'' v = Inr True \<and>
     get v ''type'' = Inr (JString ''loading'')"
  by (cases v) (simp_all add: guard_simps split: sum.splits if_splits)

lemma isNotAsked_TrueD:
  "isNotAsked v s = (Inr True, s) \<Longrightarrow>
     (\<exists>r ps. v = JObject r ps) \<and> js_in ''type'' v = Inr True \<and>
     get v ''type'' = Inr (JString ''not-asked'')"
  by (cases v) (simp_all add: guard_simps split: sum.splits if_splits)

text \<open>What a guard answers once the tag has been read.\<close>

lemma guards_by_tag:
  assumes "v = JObject r ps" and "js_in ''type'' v = Inr True" and "get v ''type'' = Inr t"
  shows "t \<noteq> JString ''ok'' \<Longrightarrow> isOk v vo s = (Inr False, s)"
    and "t \<noteq> JString ''err'' \<Longrightarrow> isErr v vo s = (Inr False, s)"
    and "isLoading v s = (Inr (t = JString ''loading''), s)"
    and "isNotAsked v s = (Inr (t = JString ''not-asked''), s)"
  using assms by (simp_all add: guard_simps)

lemma isOk_excludes:
  assumes "isOk v None s = (Inr True, s)"
  shows "isErr v vo s = (Inr False, s)" and "isLoading v s = (Inr False, s)"
    and "isNotAsked v s = (Inr False, s)"
  using isOk_TrueD [OF assms] by (auto simp: guards_by_tag)

lemma isErr_excludes:
  assumes "isErr v None s = (Inr True, s)"
  shows "isOk v vo s = (Inr False, s)" and "isLoading v s = (Inr False, s)"
    and "isNotAsked v s = (Inr False, s)"
  using isErr_TrueD [OF assms] by (auto simp: guards_by_tag)

lemma isLoading_excludes:
  assumes "isLoading v s = (Inr True, s)"
  shows "isOk v vo s = (Inr False, s)" and "isErr v vo s = (Inr False, s)"
    and "isNotAsked v s = (Inr False, s)"
  using isLoading_TrueD [OF assms] by (auto simp: guards_by_tag)

lemma isNotAsked_excludes:
  assumes "isNotAsked v s = (Inr True, s)"
  shows "isOk v vo s = (Inr False, s)" and "isErr v vo s = (Inr False, s)"
    and "isLoading v s = (Inr False, s)"
  using isNotAsked_TrueD [OF assms] by (auto simp: guards_by_tag)

lemma isOk_Ok [simp]: "isOk (Ok \<rho> v) None s = (Inr True, s)"
  by (simp add: Ok_def isOk_JObject)

lemma isOk_Err [simp]: "isOk (Err \<rho> e) vo s = (Inr False, s)"
  by (simp add: Err_def isOk_JObject)

lemma isOk_Loading [simp]: "isOk (Loading \<rho>) vo s = (Inr False, s)"
  by (simp add: Loading_def isOk_JObject)

lemma isOk_NotAsked [simp]: "isOk (NotAsked \<rho>) vo s = (Inr False, s)"
  by (simp add: NotAsked_def isOk_JObject)

lemma get_Ok [simp]: "get (Ok \<rho> v) ''value'' = Inr v"
  by (simp add: Ok_def)

lemma isLoading_Loading [simp]: "isLoading (Loading \<rho>) s = (Inr True, s)"
  by (simp add: Loading_def isLoading_JObject)

lemma isNotAsked_NotAsked [simp]: "isNotAsked (NotAsked \<rho>) s = (Inr True, s)"
  by (simp add: NotAsked_def isNotAsked_JObject)

lemma alike_refl [simp]: "alike v v"
  by (cases v) auto

lemma alike_Ok: "alike (Ok \<rho> v) (Ok \<rho>' v)"
  by (simp add: Ok_def)

lemma alike_Err: "alike (Err \<rho> e) (Err \<rho>' e)"
  by (simp add: Err_def)

lemma andThen_Inl: "m s = (Inl e, s') \<Longrightarrow> andThen m k s = (Inl e, s')"
  by (simp add: andThen_def)

lemma andThen_Inr: "m s = (Inr x, s') \<Longrightarrow> andThen m k s = k x s'"
  by (simp add: andThen_def)

lemma Inr_bool_total: "(Inr b, s) = (Inr True, s) \<or> (Inr b, s) = (Inr False, s)"
  by (cases b) simp_all

lemma returnsD: "returns r \<Longrightarrow> \<exists>x. r = Inr x"
  by (cases r) (simp_all add: returns_def)

lemma quiet_JObject:
  "quiet (JObject r ps) \<longleftrightarrow>
     returns (has_of (map_of ps ''type'')) \<and> returns (read_of (map_of ps ''type'')) \<and>
     returns (has_of (map_of ps ''value'')) \<and> returns (read_of (map_of ps ''value'')) \<and>
     returns (has_of (map_of ps ''error'')) \<and> returns (read_of (map_of ps ''error''))"
  by (simp add: quiet_def)

lemma quiet_guards_total:
  assumes "quiet v"
  shows "isOk v None s = (Inr True, s) \<or> isOk v None s = (Inr False, s)"
    and "isErr v None s = (Inr True, s) \<or> isErr v None s = (Inr False, s)"
    and "isLoading v s = (Inr True, s) \<or> isLoading v s = (Inr False, s)"
    and "isNotAsked v s = (Inr True, s) \<or> isNotAsked v s = (Inr False, s)"
  using assms
  by (cases v; simp add: guard_simps quiet_JObject returns_def split: sum.splits)+

lemma quiet_reads:
  "quiet v \<Longrightarrow> v = JObject r ps \<Longrightarrow>
     (\<exists>x. get v ''value'' = Inr x) \<and> (\<exists>x. get v ''error'' = Inr x) \<and> (\<exists>x. get v ''type'' = Inr x)"
  by (simp add: quiet_JObject returns_def split: sum.splits)

lemma plain_quiet: "(\<forall>p \<in> snd ` set ps. \<exists>x. p = Data x) \<Longrightarrow> quiet (JObject r ps)"
proof -
  assume plain: "\<forall>p \<in> snd ` set ps. \<exists>x. p = Data x"
  have "returns (has_of (map_of ps k)) \<and> returns (read_of (map_of ps k))" for k
  proof (cases "map_of ps k")
    case None
    then show ?thesis by (simp add: returns_def)
  next
    case (Some p)
    then have "p \<in> snd ` set ps" by (metis map_of_SomeD image_eqI snd_conv)
    with plain obtain x where "p = Data x" by blast
    with Some show ?thesis by (simp add: returns_def)
  qed
  then show ?thesis by (simp add: quiet_JObject)
qed

section \<open>Guards: when they throw, how validators narrow\<close>

lemma not_object: "v = JNull \<or> typeof v \<noteq> ''object'' \<Longrightarrow> v \<noteq> JObject r ps"
  by (cases v) simp_all

lemma guards_non_object:
  "v = JNull \<or> typeof v \<noteq> ''object'' \<longrightarrow>
     isOk v vo s = (Inr False, s) \<and> isErr v vo s = (Inr False, s) \<and>
     isLoading v s = (Inr False, s) \<and> isNotAsked v s = (Inr False, s)"
proof
  assume "v = JNull \<or> typeof v \<noteq> ''object''"
  then have "\<And>r ps. v \<noteq> JObject r ps" by (rule not_object)
  then show "isOk v vo s = (Inr False, s) \<and> isErr v vo s = (Inr False, s) \<and>
     isLoading v s = (Inr False, s) \<and> isNotAsked v s = (Inr False, s)"
    by (simp add: guard_simps)
qed

lemma guards_quiet:
  "quiet v \<longrightarrow>
     (isOk v None s = (Inr True, s) \<or> isOk v None s = (Inr False, s)) \<and>
     (isErr v None s = (Inr True, s) \<or> isErr v None s = (Inr False, s)) \<and>
     (isLoading v s = (Inr True, s) \<or> isLoading v s = (Inr False, s)) \<and>
     (isNotAsked v s = (Inr True, s) \<or> isNotAsked v s = (Inr False, s))"
  by (rule impI, intro conjI, erule quiet_guards_total, erule quiet_guards_total,
      erule quiet_guards_total, erule quiet_guards_total)

lemma guards_tag_absent:
  "js_in ''type'' v = Inr False \<longrightarrow>
     isOk v vo s = (Inr False, s) \<and> isErr v vo s = (Inr False, s) \<and>
     isLoading v s = (Inr False, s) \<and> isNotAsked v s = (Inr False, s)"
  by (cases v) (simp_all add: guard_simps)

lemma isOk_wrong_record:
  "js_in ''type'' v = Inr b \<and> get v ''type'' = Inr t \<and>
   (t \<noteq> JString ''ok'' \<or> js_in ''value'' v = Inr False)
     \<longrightarrow> isOk v vo s = (Inr False, s)"
  by (cases v) (auto simp: guard_simps)

lemma isErr_wrong_record:
  "js_in ''type'' v = Inr b \<and> get v ''type'' = Inr t \<and>
   (t \<noteq> JString ''err'' \<or> js_in ''error'' v = Inr False)
     \<longrightarrow> isErr v vo s = (Inr False, s)"
  by (cases v) (auto simp: guard_simps)

lemma isLoading_wrong_record:
  "js_in ''type'' v = Inr b \<and> get v ''type'' = Inr t \<and> t \<noteq> JString ''loading''
     \<longrightarrow> isLoading v s = (Inr False, s)"
  by (cases v) (auto simp: guard_simps)

lemma isNotAsked_wrong_record:
  "js_in ''type'' v = Inr b \<and> get v ''type'' = Inr t \<and> t \<noteq> JString ''not-asked''
     \<longrightarrow> isNotAsked v s = (Inr False, s)"
  by (cases v) (auto simp: guard_simps)

lemma isOk_Some_True:
  "isOk v (Some p) s = (Inr True, s') \<longleftrightarrow>
     isOk v None s = (Inr True, s) \<and> (\<exists>x. get v ''value'' = Inr x \<and> p x s = (Inr True, s'))"
  by (cases v) (auto simp: guard_simps split: sum.splits if_splits)

lemma isErr_Some_True:
  "isErr v (Some p) s = (Inr True, s') \<longleftrightarrow>
     isErr v None s = (Inr True, s) \<and> (\<exists>x. get v ''error'' = Inr x \<and> p x s = (Inr True, s'))"
  by (cases v) (auto simp: guard_simps split: sum.splits if_splits)

lemma isOk_Some_reject:
  "isOk v None s = (Inr True, s) \<and> get v ''value'' = Inr x \<and> p x s = (Inr False, s')
   \<longrightarrow> isOk v (Some p) s = (Inr False, s')"
  by (cases v) (auto simp: guard_simps split: sum.splits if_splits)

lemma isErr_Some_reject:
  "isErr v None s = (Inr True, s) \<and> get v ''error'' = Inr x \<and> p x s = (Inr False, s')
   \<longrightarrow> isErr v (Some p) s = (Inr False, s')"
  by (cases v) (auto simp: guard_simps split: sum.splits if_splits)

lemma isOk_throws_only:
  "isOk v vo s = (Inl e, s') \<longrightarrow>
     (s' = s \<and> (js_in ''type'' v = Inl e \<or> get v ''type'' = Inl e \<or>
                js_in ''value'' v = Inl e \<or> get v ''value'' = Inl e)) \<or>
     (\<exists>q y. vo = Some q \<and> get v ''value'' = Inr y \<and> q y s = (Inl e, s'))"
  by (cases v) (auto simp: guard_simps split: sum.splits if_splits option.splits)

lemma isErr_throws_only:
  "isErr v vo s = (Inl e, s') \<longrightarrow>
     (s' = s \<and> (js_in ''type'' v = Inl e \<or> get v ''type'' = Inl e \<or>
                js_in ''error'' v = Inl e \<or> get v ''error'' = Inl e)) \<or>
     (\<exists>q y. vo = Some q \<and> get v ''error'' = Inr y \<and> q y s = (Inl e, s'))"
  by (cases v) (auto simp: guard_simps split: sum.splits if_splits option.splits)

lemma isLoading_throws_only:
  "isLoading v s = (Inl e, s') \<longrightarrow>
     s' = s \<and> (js_in ''type'' v = Inl e \<or> get v ''type'' = Inl e)"
  by (cases v) (auto simp: guard_simps split: sum.splits if_splits)

lemma isNotAsked_throws_only:
  "isNotAsked v s = (Inl e, s') \<longrightarrow>
     s' = s \<and> (js_in ''type'' v = Inl e \<or> get v ''type'' = Inl e)"
  by (cases v) (auto simp: guard_simps split: sum.splits if_splits)

lemma plain_is_quiet: "(\<forall>p \<in> snd ` set ps. \<exists>x. p = Data x) \<longrightarrow> quiet (JObject r ps)"
  by (rule impI, erule plain_quiet)

text \<open>
  An object whose \<^verbatim>\<open>type\<close> is an accessor property with a getter that throws passes
  \<^verbatim>\<open>typeof\<close>, the \<^verbatim>\<open>null\<close> test and \<^verbatim>\<open>'type' in value\<close>; reading \<^verbatim>\<open>value.type\<close> then runs the
  getter, and each of the four guards throws what the getter throws.
\<close>

theorem guards_throw_counterexample:
  "isOk (JObject 1 [(''type'', Accessor (Inl (Thrown (JString ''boom''))))]) None (0::nat)
     = (Inl (Thrown (JString ''boom'')), 0) \<and>
   isErr (JObject 1 [(''type'', Accessor (Inl (Thrown (JString ''boom''))))]) None (0::nat)
     = (Inl (Thrown (JString ''boom'')), 0) \<and>
   isLoading (JObject 1 [(''type'', Accessor (Inl (Thrown (JString ''boom''))))]) (0::nat)
     = (Inl (Thrown (JString ''boom'')), 0) \<and>
   isNotAsked (JObject 1 [(''type'', Accessor (Inl (Thrown (JString ''boom''))))]) (0::nat)
     = (Inl (Thrown (JString ''boom'')), 0)"
  by (simp add: guard_simps)

text \<open>
  Claim C2, amended. On every value that is read without a throw (every primitive and
  every object of data properties among them), each of the four guards returns a
  boolean and throws nothing. Whatever validator is supplied, a guard returns false
  for \<^verbatim>\<open>null\<close>, for every value that is not an object, and for every object on which the
  tag is absent, or is read as a different tag, or on which the payload field is absent.
  With a validator, \<^verbatim>\<open>isOk\<close> and \<^verbatim>\<open>isErr\<close> return true exactly when the plain guard holds
  and the validator accepts the payload, and false when it rejects it. A guard throws
  only what a membership test or a read of \<^verbatim>\<open>type\<close> or of the payload on the value
  throws (leaving the world as it was), or what the validator throws on the payload. For
  every value, as the claim was first stated, the guards are not total: see the
  counterexample above.
\<close>

theorem guards_total_on_quiet_values_and_validators_narrow:
  "(quiet v \<longrightarrow>
      (isOk v None s = (Inr True, s) \<or> isOk v None s = (Inr False, s)) \<and>
      (isErr v None s = (Inr True, s) \<or> isErr v None s = (Inr False, s)) \<and>
      (isLoading v s = (Inr True, s) \<or> isLoading v s = (Inr False, s)) \<and>
      (isNotAsked v s = (Inr True, s) \<or> isNotAsked v s = (Inr False, s))) \<and>
   ((\<forall>p \<in> snd ` set ps. \<exists>x. p = Data x) \<longrightarrow> quiet (JObject r ps)) \<and>
   (v = JNull \<or> typeof v \<noteq> ''object'' \<longrightarrow>
      isOk v vo s = (Inr False, s) \<and> isErr v vo s = (Inr False, s) \<and>
      isLoading v s = (Inr False, s) \<and> isNotAsked v s = (Inr False, s)) \<and>
   (js_in ''type'' v = Inr False \<longrightarrow>
      isOk v vo s = (Inr False, s) \<and> isErr v vo s = (Inr False, s) \<and>
      isLoading v s = (Inr False, s) \<and> isNotAsked v s = (Inr False, s)) \<and>
   (js_in ''type'' v = Inr b \<and> get v ''type'' = Inr t \<and>
    (t \<noteq> JString ''ok'' \<or> js_in ''value'' v = Inr False)
      \<longrightarrow> isOk v vo s = (Inr False, s)) \<and>
   (js_in ''type'' v = Inr b \<and> get v ''type'' = Inr t \<and>
    (t \<noteq> JString ''err'' \<or> js_in ''error'' v = Inr False)
      \<longrightarrow> isErr v vo s = (Inr False, s)) \<and>
   (js_in ''type'' v = Inr b \<and> get v ''type'' = Inr t \<and> t \<noteq> JString ''loading''
      \<longrightarrow> isLoading v s = (Inr False, s)) \<and>
   (js_in ''type'' v = Inr b \<and> get v ''type'' = Inr t \<and> t \<noteq> JString ''not-asked''
      \<longrightarrow> isNotAsked v s = (Inr False, s)) \<and>
   (isOk v (Some p) s = (Inr True, s') \<longleftrightarrow>
      isOk v None s = (Inr True, s) \<and>
      (\<exists>x. get v ''value'' = Inr x \<and> p x s = (Inr True, s'))) \<and>
   (isErr v (Some p) s = (Inr True, s') \<longleftrightarrow>
      isErr v None s = (Inr True, s) \<and>
      (\<exists>x. get v ''error'' = Inr x \<and> p x s = (Inr True, s'))) \<and>
   (isOk v None s = (Inr True, s) \<and> get v ''value'' = Inr x \<and> p x s = (Inr False, s')
      \<longrightarrow> isOk v (Some p) s = (Inr False, s')) \<and>
   (isErr v None s = (Inr True, s) \<and> get v ''error'' = Inr x \<and> p x s = (Inr False, s')
      \<longrightarrow> isErr v (Some p) s = (Inr False, s')) \<and>
   (isOk v vo s = (Inl e, s') \<longrightarrow>
      (s' = s \<and> (js_in ''type'' v = Inl e \<or> get v ''type'' = Inl e \<or>
                 js_in ''value'' v = Inl e \<or> get v ''value'' = Inl e)) \<or>
      (\<exists>q y. vo = Some q \<and> get v ''value'' = Inr y \<and> q y s = (Inl e, s'))) \<and>
   (isErr v vo s = (Inl e, s') \<longrightarrow>
      (s' = s \<and> (js_in ''type'' v = Inl e \<or> get v ''type'' = Inl e \<or>
                 js_in ''error'' v = Inl e \<or> get v ''error'' = Inl e)) \<or>
      (\<exists>q y. vo = Some q \<and> get v ''error'' = Inr y \<and> q y s = (Inl e, s'))) \<and>
   (isLoading v s = (Inl e, s') \<longrightarrow>
      s' = s \<and> (js_in ''type'' v = Inl e \<or> get v ''type'' = Inl e)) \<and>
   (isNotAsked v s = (Inl e, s') \<longrightarrow>
      s' = s \<and> (js_in ''type'' v = Inl e \<or> get v ''type'' = Inl e))"
  apply (rule conjI)
   apply (rule guards_quiet)
  apply (rule conjI)
   apply (rule plain_is_quiet)
  apply (rule conjI)
   apply (rule guards_non_object)
  apply (rule conjI)
   apply (rule guards_tag_absent)
  apply (rule conjI)
   apply (rule isOk_wrong_record)
  apply (rule conjI)
   apply (rule isErr_wrong_record)
  apply (rule conjI)
   apply (rule isLoading_wrong_record)
  apply (rule conjI)
   apply (rule isNotAsked_wrong_record)
  apply (rule conjI)
   apply (rule isOk_Some_True)
  apply (rule conjI)
   apply (rule isErr_Some_True)
  apply (rule conjI)
   apply (rule isOk_Some_reject)
  apply (rule conjI)
   apply (rule isErr_Some_reject)
  apply (rule conjI)
   apply (rule isOk_throws_only)
  apply (rule conjI)
   apply (rule isErr_throws_only)
  apply (rule conjI)
   apply (rule isLoading_throws_only)
  apply (rule isNotAsked_throws_only)
  done

theorem guards_total_on_quiet_values_and_validators_narrow_witness:
  "quiet (Ok 1 (JNumber (Finite 7))) \<and>
   isOk (Ok 1 (JNumber (Finite 7))) None (0::nat) = (Inr True, 0) \<and>
   isErr (Ok 1 (JNumber (Finite 7))) None (0::nat) = (Inr False, 0) \<and>
   quiet (JObject 1 [(''type'', Data (JString ''ok'')), (''value'', Data JNull)]) \<and>
   isOk JNull (Some (\<lambda>x s. (Inl (Thrown x), Suc s))) (0::nat) = (Inr False, 0) \<and>
   isErr JNull (Some (\<lambda>x s. (Inl (Thrown x), Suc s))) (0::nat) = (Inr False, 0) \<and>
   isLoading JNull (0::nat) = (Inr False, 0) \<and>
   isNotAsked JNull (0::nat) = (Inr False, 0) \<and>
   typeof (JString ''ok'') \<noteq> ''object'' \<and>
   isOk (JString ''ok'') (Some (\<lambda>x s. (Inl (Thrown x), Suc s))) (0::nat) = (Inr False, 0) \<and>
   js_in ''type'' (JObject 1 [(''error'', Data JNull)]) = Inr False \<and>
   isErr (JObject 1 [(''error'', Data JNull)]) None (0::nat) = (Inr False, 0) \<and>
   js_in ''value'' (JObject 1 [(''type'', Data (JString ''ok''))]) = Inr False \<and>
   isOk (JObject 1 [(''type'', Data (JString ''ok''))]) None (0::nat) = (Inr False, 0) \<and>
   get (Ok 1 (JNumber (Finite 7))) ''type'' = Inr (JString ''ok'') \<and>
   isLoading (Ok 1 (JNumber (Finite 7))) (0::nat) = (Inr False, 0) \<and>
   isNotAsked (Ok 1 (JNumber (Finite 7))) (0::nat) = (Inr False, 0) \<and>
   isOk (Ok 1 (JNumber (Finite 7))) (Some (\<lambda>x s. (Inr (typeof x = ''number''), Suc s))) (0::nat) = (Inr True, 1) \<and>
   isErr (Err 1 (JString ''e'')) (Some (\<lambda>x s. (Inr (typeof x = ''string''), Suc s))) (0::nat) = (Inr True, 1) \<and>
   isOk (Ok 1 (JNumber (Finite 7))) (Some (\<lambda>x s. (Inr (typeof x = ''string''), Suc s))) (0::nat) = (Inr False, 1) \<and>
   isErr (Err 1 (JString ''e'')) (Some (\<lambda>x s. (Inr (typeof x = ''number''), Suc s))) (0::nat) = (Inr False, 1) \<and>
   isOk (Ok 1 (JNumber (Finite 7))) (Some (\<lambda>x s. (Inl (Thrown x), Suc s))) (0::nat) = (Inl (Thrown (JNumber (Finite 7))), 1) \<and>
   isErr (JObject 1 [(''type'', Accessor (Inl (Thrown JNull)))]) None (0::nat) = (Inl (Thrown JNull), 0) \<and>
   get (JObject 1 [(''type'', Accessor (Inl (Thrown JNull)))]) ''type'' = Inl (Thrown JNull) \<and>
   isLoading (JObject 1 [(''type'', Trapped (Inl (Thrown JNull)) (Inr JNull))]) (0::nat) = (Inl (Thrown JNull), 0) \<and>
   js_in ''type'' (JObject 1 [(''type'', Trapped (Inl (Thrown JNull)) (Inr JNull))]) = Inl (Thrown JNull) \<and>
   isNotAsked (JObject 1 [(''type'', Accessor (Inl (Thrown JNull)))]) (0::nat) = (Inl (Thrown JNull), 0)"
proof -
  have h1:
     "quiet (Ok 1 (JNumber (Finite 7))) \<and>
      isOk (Ok 1 (JNumber (Finite 7))) None (0::nat) = (Inr True, 0) \<and>
      isErr (Ok 1 (JNumber (Finite 7))) None (0::nat) = (Inr False, 0)"
    using guards_total_on_quiet_values_and_validators_narrow [where v = "Ok 1 (JNumber (Finite 7))" and s = "0::nat", THEN conjunct1]
    by (simp add: Ok_def Err_def guard_simps quiet_JObject returns_def)
  have h2:
     "quiet (JObject 1 [(''type'', Data (JString ''ok'')), (''value'', Data JNull)])"
    using guards_total_on_quiet_values_and_validators_narrow [where ps = "[(''type'', Data (JString ''ok'')), (''value'', Data JNull)]" and r = 1, THEN conjunct2, THEN conjunct1]
    by (simp add: Ok_def Err_def guard_simps quiet_JObject returns_def)
  have h3:
     "isOk JNull (Some (\<lambda>x s. (Inl (Thrown x), Suc s))) (0::nat) = (Inr False, 0) \<and>
      isErr JNull (Some (\<lambda>x s. (Inl (Thrown x), Suc s))) (0::nat) = (Inr False, 0) \<and>
      isLoading JNull (0::nat) = (Inr False, 0) \<and>
      isNotAsked JNull (0::nat) = (Inr False, 0)"
    using guards_total_on_quiet_values_and_validators_narrow [where v = JNull and vo = "Some (\<lambda>x s. (Inl (Thrown x), Suc s))" and s = "0::nat", THEN conjunct2, THEN conjunct2, THEN conjunct1]
    by (simp add: Ok_def Err_def guard_simps quiet_JObject returns_def)
  have h4:
     "typeof (JString ''ok'') \<noteq> ''object'' \<and>
      isOk (JString ''ok'') (Some (\<lambda>x s. (Inl (Thrown x), Suc s))) (0::nat) = (Inr False, 0)"
    using guards_total_on_quiet_values_and_validators_narrow [where v = "JString ''ok''" and vo = "Some (\<lambda>x s. (Inl (Thrown x), Suc s))" and s = "0::nat", THEN conjunct2, THEN conjunct2, THEN conjunct1]
    by (simp add: Ok_def Err_def guard_simps quiet_JObject returns_def)
  have h5:
     "js_in ''type'' (JObject 1 [(''error'', Data JNull)]) = Inr False \<and>
      isErr (JObject 1 [(''error'', Data JNull)]) None (0::nat) = (Inr False, 0)"
    using guards_total_on_quiet_values_and_validators_narrow [where v = "JObject 1 [(''error'', Data JNull)]" and vo = None and s = "0::nat", THEN conjunct2, THEN conjunct2, THEN conjunct2, THEN conjunct1]
    by (simp add: Ok_def Err_def guard_simps quiet_JObject returns_def)
  have h6:
     "js_in ''value'' (JObject 1 [(''type'', Data (JString ''ok''))]) = Inr False \<and>
      isOk (JObject 1 [(''type'', Data (JString ''ok''))]) None (0::nat) = (Inr False, 0)"
    using guards_total_on_quiet_values_and_validators_narrow [where v = "JObject 1 [(''type'', Data (JString ''ok''))]" and vo = None and s = "0::nat" and b = True and t = "JString ''ok''", THEN conjunct2, THEN conjunct2, THEN conjunct2, THEN conjunct2, THEN conjunct1]
    by (simp add: Ok_def Err_def guard_simps quiet_JObject returns_def)
  have h7:
     "get (Ok 1 (JNumber (Finite 7))) ''type'' = Inr (JString ''ok'')"
    using guards_total_on_quiet_values_and_validators_narrow [where v = "Ok 1 (JNumber (Finite 7))" and vo = None and s = "0::nat" and b = True and t = "JString ''ok''", THEN conjunct2, THEN conjunct2, THEN conjunct2, THEN conjunct2, THEN conjunct2, THEN conjunct1]
    by (simp add: Ok_def Err_def guard_simps quiet_JObject returns_def)
  have h8:
     "isLoading (Ok 1 (JNumber (Finite 7))) (0::nat) = (Inr False, 0)"
    using guards_total_on_quiet_values_and_validators_narrow [where v = "Ok 1 (JNumber (Finite 7))" and s = "0::nat" and b = True and t = "JString ''ok''", THEN conjunct2, THEN conjunct2, THEN conjunct2, THEN conjunct2, THEN conjunct2, THEN conjunct2, THEN conjunct1]
    by (simp add: Ok_def Err_def guard_simps quiet_JObject returns_def)
  have h9:
     "isNotAsked (Ok 1 (JNumber (Finite 7))) (0::nat) = (Inr False, 0)"
    using guards_total_on_quiet_values_and_validators_narrow [where v = "Ok 1 (JNumber (Finite 7))" and s = "0::nat" and b = True and t = "JString ''ok''", THEN conjunct2, THEN conjunct2, THEN conjunct2, THEN conjunct2, THEN conjunct2, THEN conjunct2, THEN conjunct2, THEN conjunct1]
    by (simp add: Ok_def Err_def guard_simps quiet_JObject returns_def)
  have h10:
     "isOk (Ok 1 (JNumber (Finite 7))) (Some (\<lambda>x s. (Inr (typeof x = ''number''), Suc s))) (0::nat) = (Inr True, 1)"
    using guards_total_on_quiet_values_and_validators_narrow [where v = "Ok 1 (JNumber (Finite 7))" and s = "0::nat" and s' = "1::nat" and p = "\<lambda>x s. (Inr (typeof x = ''number''), Suc s)", THEN conjunct2, THEN conjunct2, THEN conjunct2, THEN conjunct2, THEN conjunct2, THEN conjunct2, THEN conjunct2, THEN conjunct2, THEN conjunct1]
    by (simp add: Ok_def Err_def guard_simps quiet_JObject returns_def)
  have h11:
     "isErr (Err 1 (JString ''e'')) (Some (\<lambda>x s. (Inr (typeof x = ''string''), Suc s))) (0::nat) = (Inr True, 1)"
    using guards_total_on_quiet_values_and_validators_narrow [where v = "Err 1 (JString ''e'')" and s = "0::nat" and s' = "1::nat" and p = "\<lambda>x s. (Inr (typeof x = ''string''), Suc s)", THEN conjunct2, THEN conjunct2, THEN conjunct2, THEN conjunct2, THEN conjunct2, THEN conjunct2, THEN conjunct2, THEN conjunct2, THEN conjunct2, THEN conjunct1]
    by (simp add: Ok_def Err_def guard_simps quiet_JObject returns_def)
  have h12:
     "isOk (Ok 1 (JNumber (Finite 7))) (Some (\<lambda>x s. (Inr (typeof x = ''string''), Suc s))) (0::nat) = (Inr False, 1)"
    using guards_total_on_quiet_values_and_validators_narrow [where v = "Ok 1 (JNumber (Finite 7))" and s = "0::nat" and s' = "1::nat" and p = "\<lambda>x s. (Inr (typeof x = ''string''), Suc s)" and x = "JNumber (Finite 7)", THEN conjunct2, THEN conjunct2, THEN conjunct2, THEN conjunct2, THEN conjunct2, THEN conjunct2, THEN conjunct2, THEN conjunct2, THEN conjunct2, THEN conjunct2, THEN conjunct1]
    by (simp add: Ok_def Err_def guard_simps quiet_JObject returns_def)
  have h13:
     "isErr (Err 1 (JString ''e'')) (Some (\<lambda>x s. (Inr (typeof x = ''number''), Suc s))) (0::nat) = (Inr False, 1)"
    using guards_total_on_quiet_values_and_validators_narrow [where v = "Err 1 (JString ''e'')" and s = "0::nat" and s' = "1::nat" and p = "\<lambda>x s. (Inr (typeof x = ''number''), Suc s)" and x = "JString ''e''", THEN conjunct2, THEN conjunct2, THEN conjunct2, THEN conjunct2, THEN conjunct2, THEN conjunct2, THEN conjunct2, THEN conjunct2, THEN conjunct2, THEN conjunct2, THEN conjunct2, THEN conjunct1]
    by (simp add: Ok_def Err_def guard_simps quiet_JObject returns_def)
  have h14:
     "isOk (Ok 1 (JNumber (Finite 7))) (Some (\<lambda>x s. (Inl (Thrown x), Suc s))) (0::nat) = (Inl (Thrown (JNumber (Finite 7))), 1)"
    using guards_total_on_quiet_values_and_validators_narrow [where v = "Ok 1 (JNumber (Finite 7))" and s = "0::nat" and s' = "1::nat" and vo = "Some (\<lambda>x s. (Inl (Thrown x), Suc s))" and e = "Thrown (JNumber (Finite 7))", THEN conjunct2, THEN conjunct2, THEN conjunct2, THEN conjunct2, THEN conjunct2, THEN conjunct2, THEN conjunct2, THEN conjunct2, THEN conjunct2, THEN conjunct2, THEN conjunct2, THEN conjunct2, THEN conjunct1]
    by (simp add: Ok_def Err_def guard_simps quiet_JObject returns_def)
  have h15:
     "isErr (JObject 1 [(''type'', Accessor (Inl (Thrown JNull)))]) None (0::nat) = (Inl (Thrown JNull), 0) \<and>
      get (JObject 1 [(''type'', Accessor (Inl (Thrown JNull)))]) ''type'' = Inl (Thrown JNull)"
    using guards_total_on_quiet_values_and_validators_narrow [where v = "JObject 1 [(''type'', Accessor (Inl (Thrown JNull)))]" and s = "0::nat" and s' = "0::nat" and vo = None and e = "Thrown JNull", THEN conjunct2, THEN conjunct2, THEN conjunct2, THEN conjunct2, THEN conjunct2, THEN conjunct2, THEN conjunct2, THEN conjunct2, THEN conjunct2, THEN conjunct2, THEN conjunct2, THEN conjunct2, THEN conjunct2, THEN conjunct1]
    by (simp add: Ok_def Err_def guard_simps quiet_JObject returns_def)
  have h16:
     "isLoading (JObject 1 [(''type'', Trapped (Inl (Thrown JNull)) (Inr JNull))]) (0::nat) = (Inl (Thrown JNull), 0) \<and>
      js_in ''type'' (JObject 1 [(''type'', Trapped (Inl (Thrown JNull)) (Inr JNull))]) = Inl (Thrown JNull)"
    using guards_total_on_quiet_values_and_validators_narrow [where v = "JObject 1 [(''type'', Trapped (Inl (Thrown JNull)) (Inr JNull))]" and s = "0::nat" and s' = "0::nat" and e = "Thrown JNull", THEN conjunct2, THEN conjunct2, THEN conjunct2, THEN conjunct2, THEN conjunct2, THEN conjunct2, THEN conjunct2, THEN conjunct2, THEN conjunct2, THEN conjunct2, THEN conjunct2, THEN conjunct2, THEN conjunct2, THEN conjunct2, THEN conjunct1]
    by (simp add: Ok_def Err_def guard_simps quiet_JObject returns_def)
  have h17:
     "isNotAsked (JObject 1 [(''type'', Accessor (Inl (Thrown JNull)))]) (0::nat) = (Inl (Thrown JNull), 0)"
    using guards_total_on_quiet_values_and_validators_narrow [where v = "JObject 1 [(''type'', Accessor (Inl (Thrown JNull)))]" and s = "0::nat" and s' = "0::nat" and e = "Thrown JNull", THEN conjunct2, THEN conjunct2, THEN conjunct2, THEN conjunct2, THEN conjunct2, THEN conjunct2, THEN conjunct2, THEN conjunct2, THEN conjunct2, THEN conjunct2, THEN conjunct2, THEN conjunct2, THEN conjunct2, THEN conjunct2, THEN conjunct2]
    by (simp add: Ok_def Err_def guard_simps quiet_JObject returns_def)
  show ?thesis
    by (simp only: h1 h2 h3 h4 h5 h6 h7 h8 h9 h10 h11 h12 h13 h14 h15 h16 h17 simp_thms)
qed

section \<open>The combined guards\<close>



lemma isOk_True_Some:
  "isOk v None s = (Inr True, s) \<Longrightarrow> isOk v (Some p) s = andThen (lift (get v ''value'')) p s"
  by (cases v) (auto simp: guard_simps eff_defs split: sum.splits if_splits option.splits)

lemma isOk_True_None: "isOk v vo s = (Inr True, s') \<Longrightarrow> isOk v None s = (Inr True, s)"
  by (cases v) (auto simp: guard_simps split: sum.splits if_splits option.splits)



lemma isErr_True_Some:
  "isErr v None s = (Inr True, s) \<Longrightarrow> isErr v (Some p) s = andThen (lift (get v ''error'')) p s"
  by (cases v) (auto simp: guard_simps eff_defs split: sum.splits if_splits option.splits)


lemma isResult_Inl: "isOk v None s = (Inl e, s) \<Longrightarrow> isResult v vv ev s = (Inl e, s)"
  by (simp add: isResult_def eff_defs)

lemma isResult_ok:
  assumes "isOk v None s = (Inr True, s)"
  shows "isResult v vv ev s = isOk v vv s"
proof (cases vv)
  case None
  with assms isOk_excludes(1) [OF assms, of None] show ?thesis
    by (simp add: isResult_def eff_defs)
next
  case (Some p)
  with assms isOk_True_Some [OF assms, of p] show ?thesis
    by (simp add: isResult_def eff_defs)
qed

lemma isResult_err:
  assumes "isErr v None s = (Inr True, s)"
  shows "isResult v vv ev s = isErr v ev s"
proof (cases ev)
  case None
  with assms isErr_excludes(1) [OF assms, of None] show ?thesis
    by (simp add: isResult_def eff_defs split: option.splits)
next
  case (Some q)
  with assms isErr_excludes(1) [OF assms, of None] isErr_True_Some [OF assms, of q] show ?thesis
    by (simp add: isResult_def eff_defs split: option.splits)
qed

lemma isResult_none:
  "isOk v None s = (Inr False, s) \<Longrightarrow> isErr v None s = (Inr False, s) \<Longrightarrow>
     isResult v vv ev s = (Inr False, s)"
  by (simp add: isResult_def eff_defs)

lemma isResult_err_Inl:
  "isOk v None s = (Inr False, s) \<Longrightarrow> isErr v None s = (Inl e, s) \<Longrightarrow>
     isResult v vv ev s = (Inl e, s)"
  by (simp add: isResult_def eff_defs)





lemma isRemoteResult_Loading:
  "isLoading v s = (Inr True, s) \<Longrightarrow> isRemoteResult v vv ev s = (Inr True, s)"
  by (simp add: isRemoteResult_def eff_defs)

lemma isRemoteResult_NotAsked:
  assumes "isNotAsked v s = (Inr True, s)"
  shows "isRemoteResult v vv ev s = (Inr True, s)"
  using assms isNotAsked_excludes(3) [OF assms] by (simp add: isRemoteResult_def eff_defs)





section \<open>Transformations pass through what their guard rejects\<close>

lemma mapOk_pass: "isOk v None s = (Inr False, s) \<Longrightarrow> mapOk \<rho> v f s = (Inr v, s)"
  by (simp add: mapOk_def eff_defs)

lemma flatMapOk_pass: "isOk v None s = (Inr False, s) \<Longrightarrow> flatMapOk v f s = (Inr v, s)"
  by (simp add: flatMapOk_def eff_defs)

lemma mapErr_pass: "isErr v None s = (Inr False, s) \<Longrightarrow> mapErr \<rho> v f s = (Inr v, s)"
  by (simp add: mapErr_def eff_defs)

lemma flatMapErr_pass: "isErr v None s = (Inr False, s) \<Longrightarrow> flatMapErr v f s = (Inr v, s)"
  by (simp add: flatMapErr_def eff_defs)

lemma mapOk_Inl: "isOk v None s = (Inl e, s) \<Longrightarrow> mapOk \<rho> v f s = (Inl e, s)"
  by (simp add: mapOk_def eff_defs)

lemma flatMapOk_Inl: "isOk v None s = (Inl e, s) \<Longrightarrow> flatMapOk v f s = (Inl e, s)"
  by (simp add: flatMapOk_def eff_defs)

lemma mapErr_Inl: "isErr v None s = (Inl e, s) \<Longrightarrow> mapErr \<rho> v f s = (Inl e, s)"
  by (simp add: mapErr_def eff_defs)

lemma flatMapErr_Inl: "isErr v None s = (Inl e, s) \<Longrightarrow> flatMapErr v f s = (Inl e, s)"
  by (simp add: flatMapErr_def eff_defs)

lemma pass_through_by_guard:
  "(isOk v None s = (Inr False, s) \<longrightarrow>
      mapOk \<rho> v f s = (Inr v, s) \<and> flatMapOk v f s = (Inr v, s)) \<and>
   (isErr v None s = (Inr False, s) \<longrightarrow>
      mapErr \<rho> v f s = (Inr v, s) \<and> flatMapErr v f s = (Inr v, s))"
  by (simp add: mapOk_pass flatMapOk_pass mapErr_pass flatMapErr_pass)

lemma pass_through_non_object:
  "v = JNull \<or> typeof v \<noteq> ''object'' \<longrightarrow>
      mapOk \<rho> v f s = (Inr v, s) \<and> flatMapOk v f s = (Inr v, s) \<and>
      mapErr \<rho> v f s = (Inr v, s) \<and> flatMapErr v f s = (Inr v, s)"
proof
  assume "v = JNull \<or> typeof v \<noteq> ''object''"
  then have "isOk v None s = (Inr False, s)" and "isErr v None s = (Inr False, s)"
    using guards_non_object [of v None s] by simp_all
  then show "mapOk \<rho> v f s = (Inr v, s) \<and> flatMapOk v f s = (Inr v, s) \<and>
      mapErr \<rho> v f s = (Inr v, s) \<and> flatMapErr v f s = (Inr v, s)"
    by (simp add: mapOk_pass flatMapOk_pass mapErr_pass flatMapErr_pass)
qed

lemma pass_through_tag_absent:
  "js_in ''type'' v = Inr False \<longrightarrow>
      mapOk \<rho> v f s = (Inr v, s) \<and> flatMapOk v f s = (Inr v, s) \<and>
      mapErr \<rho> v f s = (Inr v, s) \<and> flatMapErr v f s = (Inr v, s)"
proof
  assume "js_in ''type'' v = Inr False"
  then have "isOk v None s = (Inr False, s)" and "isErr v None s = (Inr False, s)"
    using guards_tag_absent [of v None s] by simp_all
  then show "mapOk \<rho> v f s = (Inr v, s) \<and> flatMapOk v f s = (Inr v, s) \<and>
      mapErr \<rho> v f s = (Inr v, s) \<and> flatMapErr v f s = (Inr v, s)"
    by (simp add: mapOk_pass flatMapOk_pass mapErr_pass flatMapErr_pass)
qed

lemma pass_through_malformed_ok:
  "js_in ''type'' v = Inr b \<and> get v ''type'' = Inr t \<and>
   (t \<noteq> JString ''ok'' \<or> js_in ''value'' v = Inr False) \<longrightarrow>
      mapOk \<rho> v f s = (Inr v, s) \<and> flatMapOk v f s = (Inr v, s)"
  using isOk_wrong_record [of v b t None s] by (simp add: mapOk_pass flatMapOk_pass)

lemma pass_through_malformed_err:
  "js_in ''type'' v = Inr b \<and> get v ''type'' = Inr t \<and>
   (t \<noteq> JString ''err'' \<or> js_in ''error'' v = Inr False) \<longrightarrow>
      mapErr \<rho> v f s = (Inr v, s) \<and> flatMapErr v f s = (Inr v, s)"
  using isErr_wrong_record [of v b t None s] by (simp add: mapErr_pass flatMapErr_pass)

lemma guard_throw_is_passed_on:
  "(isOk v None s = (Inl e, s) \<longrightarrow>
      mapOk \<rho> v f s = (Inl e, s) \<and> flatMapOk v f s = (Inl e, s)) \<and>
   (isErr v None s = (Inl e, s) \<longrightarrow>
      mapErr \<rho> v f s = (Inl e, s) \<and> flatMapErr v f s = (Inl e, s))"
  by (simp add: mapOk_Inl flatMapOk_Inl mapErr_Inl flatMapErr_Inl)

lemma pass_through_quiet:
  "(quiet v \<and> isOk v None s \<noteq> (Inr True, s) \<longrightarrow>
      mapOk \<rho> v f s = (Inr v, s) \<and> flatMapOk v f s = (Inr v, s)) \<and>
   (quiet v \<and> isErr v None s \<noteq> (Inr True, s) \<longrightarrow>
      mapErr \<rho> v f s = (Inr v, s) \<and> flatMapErr v f s = (Inr v, s))"
proof (intro conjI impI; elim conjE)
  assume q: "quiet v" and n: "isOk v None s \<noteq> (Inr True, s)"
  from quiet_guards_total(1) [OF q, of s] n have "isOk v None s = (Inr False, s)" by simp
  then show "mapOk \<rho> v f s = (Inr v, s)" and "flatMapOk v f s = (Inr v, s)"
    by (simp_all add: mapOk_pass flatMapOk_pass)
next
  assume q: "quiet v" and n: "isErr v None s \<noteq> (Inr True, s)"
  from quiet_guards_total(2) [OF q, of s] n have "isErr v None s = (Inr False, s)" by simp
  then show "mapErr \<rho> v f s = (Inr v, s)" and "flatMapErr v f s = (Inr v, s)"
    by (simp_all add: mapErr_pass flatMapErr_pass)
qed

text \<open>
  On an object whose \<^verbatim>\<open>type\<close> is an accessor property with a getter that throws, the
  guard does not hold, and each of the four transformations throws what the getter
  throws: they call the guard first.
\<close>

theorem transformations_throw_counterexample:
  "isOk (JObject 1 [(''type'', Accessor (Inl (Thrown (JString ''boom''))))]) None (0::nat)
     \<noteq> (Inr True, 0) \<and>
   mapOk 9 (JObject 1 [(''type'', Accessor (Inl (Thrown (JString ''boom''))))]) ret (0::nat)
     = (Inl (Thrown (JString ''boom'')), 0) \<and>
   flatMapOk (JObject 1 [(''type'', Accessor (Inl (Thrown (JString ''boom''))))]) ret (0::nat)
     = (Inl (Thrown (JString ''boom'')), 0) \<and>
   isErr (JObject 1 [(''type'', Accessor (Inl (Thrown (JString ''boom''))))]) None (0::nat)
     \<noteq> (Inr True, 0) \<and>
   mapErr 9 (JObject 1 [(''type'', Accessor (Inl (Thrown (JString ''boom''))))]) ret (0::nat)
     = (Inl (Thrown (JString ''boom'')), 0) \<and>
   flatMapErr (JObject 1 [(''type'', Accessor (Inl (Thrown (JString ''boom''))))]) ret (0::nat)
     = (Inl (Thrown (JString ''boom'')), 0)"
  by (simp add: guard_simps mapOk_Inl flatMapOk_Inl mapErr_Inl flatMapErr_Inl)

text \<open>
  Claim C9, amended. On every value \<open>v\<close> for which the guard of their channel returns
  false, \<^verbatim>\<open>mapOk\<close>, \<^verbatim>\<open>flatMapOk\<close>, \<^verbatim>\<open>mapErr\<close> and \<^verbatim>\<open>flatMapErr\<close> return \<open>v\<close> itself, throw
  nothing and leave the world as it was, whatever the mapper would have done: the mapper
  is not called. That covers every value read without a throw that does not satisfy the
  guard: \<^verbatim>\<open>null\<close>, every primitive, and every object on which the tag is absent or read as
  another tag or the payload field is absent. Where the guard itself throws, because a
  membership test or a read on \<open>v\<close> throws, the transformation throws the same, again
  without calling the mapper. For every input, as the claim was first stated, the four
  are not total: see the counterexample above.
\<close>

theorem transformations_pass_through_where_guard_is_false:
  "((isOk v None s = (Inr False, s) \<longrightarrow>
      mapOk \<rho> v f s = (Inr v, s) \<and> flatMapOk v f s = (Inr v, s)) \<and>
    (isErr v None s = (Inr False, s) \<longrightarrow>
      mapErr \<rho> v f s = (Inr v, s) \<and> flatMapErr v f s = (Inr v, s))) \<and>
   ((quiet v \<and> isOk v None s \<noteq> (Inr True, s) \<longrightarrow>
      mapOk \<rho> v f s = (Inr v, s) \<and> flatMapOk v f s = (Inr v, s)) \<and>
    (quiet v \<and> isErr v None s \<noteq> (Inr True, s) \<longrightarrow>
      mapErr \<rho> v f s = (Inr v, s) \<and> flatMapErr v f s = (Inr v, s))) \<and>
   (v = JNull \<or> typeof v \<noteq> ''object'' \<longrightarrow>
      mapOk \<rho> v f s = (Inr v, s) \<and> flatMapOk v f s = (Inr v, s) \<and>
      mapErr \<rho> v f s = (Inr v, s) \<and> flatMapErr v f s = (Inr v, s)) \<and>
   (js_in ''type'' v = Inr False \<longrightarrow>
      mapOk \<rho> v f s = (Inr v, s) \<and> flatMapOk v f s = (Inr v, s) \<and>
      mapErr \<rho> v f s = (Inr v, s) \<and> flatMapErr v f s = (Inr v, s)) \<and>
   (js_in ''type'' v = Inr b \<and> get v ''type'' = Inr t \<and>
    (t \<noteq> JString ''ok'' \<or> js_in ''value'' v = Inr False) \<longrightarrow>
      mapOk \<rho> v f s = (Inr v, s) \<and> flatMapOk v f s = (Inr v, s)) \<and>
   (js_in ''type'' v = Inr b \<and> get v ''type'' = Inr t \<and>
    (t \<noteq> JString ''err'' \<or> js_in ''error'' v = Inr False) \<longrightarrow>
      mapErr \<rho> v f s = (Inr v, s) \<and> flatMapErr v f s = (Inr v, s)) \<and>
   ((isOk v None s = (Inl e, s) \<longrightarrow>
      mapOk \<rho> v f s = (Inl e, s) \<and> flatMapOk v f s = (Inl e, s)) \<and>
    (isErr v None s = (Inl e, s) \<longrightarrow>
      mapErr \<rho> v f s = (Inl e, s) \<and> flatMapErr v f s = (Inl e, s)))"
  apply (rule conjI)
   apply (rule pass_through_by_guard)
  apply (rule conjI)
   apply (rule pass_through_quiet)
  apply (rule conjI)
   apply (rule pass_through_non_object)
  apply (rule conjI)
   apply (rule pass_through_tag_absent)
  apply (rule conjI)
   apply (rule pass_through_malformed_ok)
  apply (rule conjI)
   apply (rule pass_through_malformed_err)
  apply (rule guard_throw_is_passed_on)
  done

theorem transformations_pass_through_where_guard_is_false_witness:
  "isOk JNull None (0::nat) = (Inr False, 0) \<and>
   mapOk 9 JNull (\<lambda>x s. (Inl (Thrown x), Suc s)) (0::nat) = (Inr JNull, 0) \<and>
   flatMapOk JNull (\<lambda>x s. (Inl (Thrown x), Suc s)) (0::nat) = (Inr JNull, 0) \<and>
   isErr (Ok 1 JNull) None (0::nat) = (Inr False, 0) \<and>
   mapErr 9 (Ok 1 JNull) (\<lambda>x s. (Inl (Thrown x), Suc s)) (0::nat) = (Inr (Ok 1 JNull), 0) \<and>
   flatMapErr (Ok 1 JNull) (\<lambda>x s. (Inl (Thrown x), Suc s)) (0::nat) = (Inr (Ok 1 JNull), 0) \<and>
   quiet (Loading 1) \<and>
   isOk (Loading 1) None (0::nat) \<noteq> (Inr True, 0) \<and>
   mapOk 9 (Loading 1) (\<lambda>x s. (Inl (Thrown x), Suc s)) (0::nat) = (Inr (Loading 1), 0) \<and>
   isErr (Loading 1) None (0::nat) \<noteq> (Inr True, 0) \<and>
   flatMapErr (Loading 1) (\<lambda>x s. (Inl (Thrown x), Suc s)) (0::nat) = (Inr (Loading 1), 0) \<and>
   typeof (JString ''ok'') \<noteq> ''object'' \<and>
   flatMapErr (JString ''ok'') (\<lambda>x s. (Inr x, Suc s)) (0::nat) = (Inr (JString ''ok''), 0) \<and>
   js_in ''type'' (JObject 1 [(''error'', Data JNull)]) = Inr False \<and>
   mapErr 9 (JObject 1 [(''error'', Data JNull)]) (\<lambda>x s. (Inr x, Suc s)) (0::nat) = (Inr (JObject 1 [(''error'', Data JNull)]), 0) \<and>
   js_in ''type'' (JObject 1 [(''type'', Data (JString ''ok''))]) = Inr True \<and>
   get (JObject 1 [(''type'', Data (JString ''ok''))]) ''type'' = Inr (JString ''ok'') \<and>
   js_in ''value'' (JObject 1 [(''type'', Data (JString ''ok''))]) = Inr False \<and>
   flatMapOk (JObject 1 [(''type'', Data (JString ''ok''))]) (\<lambda>x s. (Inr x, Suc s)) (0::nat) = (Inr (JObject 1 [(''type'', Data (JString ''ok''))]), 0) \<and>
   flatMapErr (JObject 1 [(''type'', Data (JString ''ok''))]) (\<lambda>x s. (Inr x, Suc s)) (0::nat) = (Inr (JObject 1 [(''type'', Data (JString ''ok''))]), 0) \<and>
   isOk (JObject 1 [(''type'', Accessor (Inl (Thrown JNull)))]) None (0::nat) = (Inl (Thrown JNull), 0) \<and>
   mapOk 9 (JObject 1 [(''type'', Accessor (Inl (Thrown JNull)))]) (\<lambda>x s. (Inr x, Suc s)) (0::nat) = (Inl (Thrown JNull), 0) \<and>
   isErr (JObject 1 [(''type'', Accessor (Inl (Thrown JNull)))]) None (0::nat) = (Inl (Thrown JNull), 0) \<and>
   flatMapErr (JObject 1 [(''type'', Accessor (Inl (Thrown JNull)))]) (\<lambda>x s. (Inr x, Suc s)) (0::nat) = (Inl (Thrown JNull), 0)"
proof -
  have h1:
     "isOk JNull None (0::nat) = (Inr False, 0) \<and>
      mapOk 9 JNull (\<lambda>x s. (Inl (Thrown x), Suc s)) (0::nat) = (Inr JNull, 0) \<and>
      flatMapOk JNull (\<lambda>x s. (Inl (Thrown x), Suc s)) (0::nat) = (Inr JNull, 0)"
    using transformations_pass_through_where_guard_is_false [where v = JNull and s = "0::nat" and \<rho> = 9 and f = "\<lambda>x s. (Inl (Thrown x), Suc s)", THEN conjunct1]
    by (simp add: Ok_def Loading_def guard_simps quiet_JObject returns_def)
  have h2:
     "isErr (Ok 1 JNull) None (0::nat) = (Inr False, 0) \<and>
      mapErr 9 (Ok 1 JNull) (\<lambda>x s. (Inl (Thrown x), Suc s)) (0::nat) = (Inr (Ok 1 JNull), 0) \<and>
      flatMapErr (Ok 1 JNull) (\<lambda>x s. (Inl (Thrown x), Suc s)) (0::nat) = (Inr (Ok 1 JNull), 0)"
    using transformations_pass_through_where_guard_is_false [where v = "Ok 1 JNull" and s = "0::nat" and \<rho> = 9 and f = "\<lambda>x s. (Inl (Thrown x), Suc s)", THEN conjunct1]
    by (simp add: Ok_def Loading_def guard_simps quiet_JObject returns_def)
  have h3:
     "quiet (Loading 1) \<and>
      isOk (Loading 1) None (0::nat) \<noteq> (Inr True, 0) \<and>
      mapOk 9 (Loading 1) (\<lambda>x s. (Inl (Thrown x), Suc s)) (0::nat) = (Inr (Loading 1), 0) \<and>
      isErr (Loading 1) None (0::nat) \<noteq> (Inr True, 0) \<and>
      flatMapErr (Loading 1) (\<lambda>x s. (Inl (Thrown x), Suc s)) (0::nat) = (Inr (Loading 1), 0)"
    using transformations_pass_through_where_guard_is_false [where v = "Loading 1" and s = "0::nat" and \<rho> = 9 and f = "\<lambda>x s. (Inl (Thrown x), Suc s)", THEN conjunct2, THEN conjunct1]
    by (simp add: Ok_def Loading_def guard_simps quiet_JObject returns_def)
  have h4:
     "typeof (JString ''ok'') \<noteq> ''object'' \<and>
      flatMapErr (JString ''ok'') (\<lambda>x s. (Inr x, Suc s)) (0::nat) = (Inr (JString ''ok''), 0)"
    using transformations_pass_through_where_guard_is_false [where v = "JString ''ok''" and s = "0::nat" and f = "\<lambda>x s. (Inr x, Suc s)", THEN conjunct2, THEN conjunct2, THEN conjunct1]
    by (simp add: Ok_def Loading_def guard_simps quiet_JObject returns_def)
  have h5:
     "js_in ''type'' (JObject 1 [(''error'', Data JNull)]) = Inr False \<and>
      mapErr 9 (JObject 1 [(''error'', Data JNull)]) (\<lambda>x s. (Inr x, Suc s)) (0::nat) = (Inr (JObject 1 [(''error'', Data JNull)]), 0)"
    using transformations_pass_through_where_guard_is_false [where v = "JObject 1 [(''error'', Data JNull)]" and s = "0::nat" and \<rho> = 9 and f = "\<lambda>x s. (Inr x, Suc s)", THEN conjunct2, THEN conjunct2, THEN conjunct2, THEN conjunct1]
    by (simp add: Ok_def Loading_def guard_simps quiet_JObject returns_def)
  have h6:
     "js_in ''type'' (JObject 1 [(''type'', Data (JString ''ok''))]) = Inr True \<and>
      get (JObject 1 [(''type'', Data (JString ''ok''))]) ''type'' = Inr (JString ''ok'') \<and>
      js_in ''value'' (JObject 1 [(''type'', Data (JString ''ok''))]) = Inr False \<and>
      flatMapOk (JObject 1 [(''type'', Data (JString ''ok''))]) (\<lambda>x s. (Inr x, Suc s)) (0::nat) = (Inr (JObject 1 [(''type'', Data (JString ''ok''))]), 0)"
    using transformations_pass_through_where_guard_is_false [where v = "JObject 1 [(''type'', Data (JString ''ok''))]" and s = "0::nat" and f = "\<lambda>x s. (Inr x, Suc s)" and b = True and t = "JString ''ok''", THEN conjunct2, THEN conjunct2, THEN conjunct2, THEN conjunct2, THEN conjunct1]
    by (simp add: Ok_def Loading_def guard_simps quiet_JObject returns_def)
  have h7:
     "flatMapErr (JObject 1 [(''type'', Data (JString ''ok''))]) (\<lambda>x s. (Inr x, Suc s)) (0::nat) = (Inr (JObject 1 [(''type'', Data (JString ''ok''))]), 0)"
    using transformations_pass_through_where_guard_is_false [where v = "JObject 1 [(''type'', Data (JString ''ok''))]" and s = "0::nat" and f = "\<lambda>x s. (Inr x, Suc s)" and b = True and t = "JString ''ok''", THEN conjunct2, THEN conjunct2, THEN conjunct2, THEN conjunct2, THEN conjunct2, THEN conjunct1]
    by (simp add: Ok_def Loading_def guard_simps quiet_JObject returns_def)
  have h8:
     "isOk (JObject 1 [(''type'', Accessor (Inl (Thrown JNull)))]) None (0::nat) = (Inl (Thrown JNull), 0) \<and>
      mapOk 9 (JObject 1 [(''type'', Accessor (Inl (Thrown JNull)))]) (\<lambda>x s. (Inr x, Suc s)) (0::nat) = (Inl (Thrown JNull), 0) \<and>
      isErr (JObject 1 [(''type'', Accessor (Inl (Thrown JNull)))]) None (0::nat) = (Inl (Thrown JNull), 0) \<and>
      flatMapErr (JObject 1 [(''type'', Accessor (Inl (Thrown JNull)))]) (\<lambda>x s. (Inr x, Suc s)) (0::nat) = (Inl (Thrown JNull), 0)"
    using transformations_pass_through_where_guard_is_false [where v = "JObject 1 [(''type'', Accessor (Inl (Thrown JNull)))]" and s = "0::nat" and \<rho> = 9 and f = "\<lambda>x s. (Inr x, Suc s)" and e = "Thrown JNull", THEN conjunct2, THEN conjunct2, THEN conjunct2, THEN conjunct2, THEN conjunct2, THEN conjunct2]
    by (simp add: Ok_def Loading_def guard_simps quiet_JObject returns_def)
  show ?thesis
    by (simp only: h1 h2 h3 h4 h5 h6 h7 h8 simp_thms)
qed

section \<open>Defaults\<close>

lemma unwrapOr_guard_True:
  "isOk r None s = (Inr True, s) \<and> get r ''value'' = Inr v \<longrightarrow> unwrapOr r d s = (Inr v, s)"
  by (simp add: unwrapOr_def eff_defs)

lemma unwrapOr_guard_False:
  "isOk r None s = (Inr False, s) \<longrightarrow> unwrapOr r d s = (Inr d, s)"
  by (simp add: unwrapOr_def eff_defs)

lemma unwrapOr_quiet:
  "quiet r \<longrightarrow>
     (isOk r None s = (Inr True, s) \<or> isOk r None s = (Inr False, s)) \<and>
     (\<exists>v. unwrapOr r d s = (Inr v, s))"
proof
  assume q: "quiet r"
  from quiet_guards_total(1) [OF q, of s]
  have "\<exists>v. unwrapOr r d s = (Inr v, s)"
  proof
    assume ok: "isOk r None s = (Inr True, s)"
    from isOk_TrueD [OF ok] obtain \<rho> ps where "r = JObject \<rho> ps" by blast
    from quiet_reads [OF q this] obtain x where "get r ''value'' = Inr x" by blast
    with ok show ?thesis by (simp add: unwrapOr_def eff_defs)
  next
    assume "isOk r None s = (Inr False, s)"
    then show ?thesis by (simp add: unwrapOr_def eff_defs)
  qed
  with quiet_guards_total(1) [OF q, of s]
  show "(isOk r None s = (Inr True, s) \<or> isOk r None s = (Inr False, s)) \<and>
     (\<exists>v. unwrapOr r d s = (Inr v, s))" ..
qed

lemma unwrapOr_variants:
  "unwrapOr (Ok \<rho> v) d s = (Inr v, s) \<and> unwrapOr (Err \<rho> e) d s = (Inr d, s) \<and>
   unwrapOr (Loading \<rho>) d s = (Inr d, s) \<and> unwrapOr (NotAsked \<rho>) d s = (Inr d, s)"
  by (simp add: unwrapOr_def eff_defs)

lemma unwrapOr_throws:
  "(isOk r None s = (Inl e, s) \<longrightarrow> unwrapOr r d s = (Inl e, s)) \<and>
   (isOk r None s = (Inr True, s) \<and> get r ''value'' = Inl e \<longrightarrow> unwrapOr r d s = (Inl e, s))"
  by (simp add: unwrapOr_def eff_defs)

text \<open>
  On an object whose \<^verbatim>\<open>type\<close> is an accessor property with a getter that throws,
  \<^verbatim>\<open>unwrapOr\<close> and \<^verbatim>\<open>getOrElse\<close> throw instead of returning the default; and an object
  with the tag of an Ok whose \<^verbatim>\<open>value\<close> is such an accessor passes the guard, and the read
  of the payload throws.
\<close>

theorem unwrapOr_throw_counterexample:
  "unwrapOr (JObject 1 [(''type'', Accessor (Inl (Thrown (JString ''boom''))))]) JNull (0::nat)
     = (Inl (Thrown (JString ''boom'')), 0) \<and>
   getOrElse (JObject 1 [(''type'', Accessor (Inl (Thrown (JString ''boom''))))]) JNull (0::nat)
     = (Inl (Thrown (JString ''boom'')), 0) \<and>
   isOk (JObject 1 [(''type'', Data (JString ''ok'')),
                    (''value'', Accessor (Inl (Thrown (JString ''boom''))))]) None (0::nat)
     = (Inr True, 0) \<and>
   getOrElse (JObject 1 [(''type'', Data (JString ''ok'')),
                         (''value'', Accessor (Inl (Thrown (JString ''boom''))))]) JNull (0::nat)
     = (Inl (Thrown (JString ''boom'')), 0)"
  by (simp add: getOrElse_def unwrapOr_def eff_defs guard_simps)

text \<open>
  Claim C10, amended. \<^verbatim>\<open>getOrElse(r, d)\<close> is \<^verbatim>\<open>unwrapOr(r, d)\<close> on every input. Both
  return the payload when \<open>r\<close> passes the Ok guard and its payload is read, and \<open>d\<close> when
  the guard returns false. On every input that is read without a throw (an Ok, an Err,
  Loading, NotAsked, \<^verbatim>\<open>null\<close>, a primitive, any object of data properties) they return
  one or the other and throw nothing. They throw only what the guard throws or what
  the read of the payload throws. For every input, as the claim was first stated, they
  are not free of throws: see the counterexample above.
\<close>

theorem getOrElse_is_unwrapOr_total_on_quiet_values:
  "getOrElse r d s = unwrapOr r d s \<and>
   (isOk r None s = (Inr True, s) \<and> get r ''value'' = Inr v \<longrightarrow>
      unwrapOr r d s = (Inr v, s)) \<and>
   (isOk r None s = (Inr False, s) \<longrightarrow> unwrapOr r d s = (Inr d, s)) \<and>
   (quiet r \<longrightarrow>
      (isOk r None s = (Inr True, s) \<or> isOk r None s = (Inr False, s)) \<and>
      (\<exists>v. unwrapOr r d s = (Inr v, s))) \<and>
   (unwrapOr (Ok \<rho> v) d s = (Inr v, s) \<and> unwrapOr (Err \<rho> e) d s = (Inr d, s) \<and>
    unwrapOr (Loading \<rho>) d s = (Inr d, s) \<and> unwrapOr (NotAsked \<rho>) d s = (Inr d, s)) \<and>
   ((isOk r None s = (Inl t, s) \<longrightarrow> unwrapOr r d s = (Inl t, s)) \<and>
    (isOk r None s = (Inr True, s) \<and> get r ''value'' = Inl t \<longrightarrow>
       unwrapOr r d s = (Inl t, s)))"
  apply (rule conjI)
   apply (simp add: getOrElse_def)
  apply (rule conjI)
   apply (rule unwrapOr_guard_True)
  apply (rule conjI)
   apply (rule unwrapOr_guard_False)
  apply (rule conjI)
   apply (rule unwrapOr_quiet)
  apply (rule conjI)
   apply (rule unwrapOr_variants)
  apply (rule unwrapOr_throws)
  done

theorem getOrElse_is_unwrapOr_total_on_quiet_values_witness:
  "getOrElse (Ok 1 (JString ''a'')) JNull (0::nat) = (Inr (JString ''a''), 0) \<and>
   isOk (Ok 1 (JString ''a'')) None (0::nat) = (Inr True, 0) \<and>
   get (Ok 1 (JString ''a'')) ''value'' = Inr (JString ''a'') \<and>
   unwrapOr (Ok 1 (JString ''a'')) JNull (0::nat) = (Inr (JString ''a''), 0) \<and>
   isOk (JBoolean True) None (0::nat) = (Inr False, 0) \<and>
   unwrapOr (JBoolean True) JNull (0::nat) = (Inr JNull, 0) \<and>
   quiet (Err 1 JNull) \<and>
   unwrapOr (Err 1 JNull) (JBoolean True) (0::nat) = (Inr (JBoolean True), 0) \<and>
   isOk (JObject 1 [(''type'', Accessor (Inl (Thrown JNull)))]) None (0::nat) = (Inl (Thrown JNull), 0) \<and>
   unwrapOr (JObject 1 [(''type'', Accessor (Inl (Thrown JNull)))]) JNull (0::nat) = (Inl (Thrown JNull), 0) \<and>
   isOk (JObject 1 [(''type'', Data (JString ''ok'')), (''value'', Accessor (Inl (Thrown JNull)))]) None (0::nat) = (Inr True, 0) \<and>
   get (JObject 1 [(''type'', Data (JString ''ok'')), (''value'', Accessor (Inl (Thrown JNull)))]) ''value'' = Inl (Thrown JNull) \<and>
   unwrapOr (JObject 1 [(''type'', Data (JString ''ok'')), (''value'', Accessor (Inl (Thrown JNull)))]) JNull (0::nat) = (Inl (Thrown JNull), 0)"
proof -
  have h1:
     "getOrElse (Ok 1 (JString ''a'')) JNull (0::nat) = (Inr (JString ''a''), 0)"
    using getOrElse_is_unwrapOr_total_on_quiet_values [where r = "Ok 1 (JString ''a'')" and d = JNull and s = "0::nat", THEN conjunct1]
    by (simp add: Ok_def Err_def guard_simps quiet_JObject returns_def unwrapOr_def getOrElse_def eff_defs)
  have h2:
     "isOk (Ok 1 (JString ''a'')) None (0::nat) = (Inr True, 0) \<and>
      get (Ok 1 (JString ''a'')) ''value'' = Inr (JString ''a'') \<and>
      unwrapOr (Ok 1 (JString ''a'')) JNull (0::nat) = (Inr (JString ''a''), 0)"
    using getOrElse_is_unwrapOr_total_on_quiet_values [where r = "Ok 1 (JString ''a'')" and d = JNull and s = "0::nat" and v = "JString ''a''", THEN conjunct2, THEN conjunct1]
    by (simp add: Ok_def Err_def guard_simps quiet_JObject returns_def unwrapOr_def getOrElse_def eff_defs)
  have h3:
     "isOk (JBoolean True) None (0::nat) = (Inr False, 0) \<and>
      unwrapOr (JBoolean True) JNull (0::nat) = (Inr JNull, 0)"
    using getOrElse_is_unwrapOr_total_on_quiet_values [where r = "JBoolean True" and d = JNull and s = "0::nat", THEN conjunct2, THEN conjunct2, THEN conjunct1]
    by (simp add: Ok_def Err_def guard_simps quiet_JObject returns_def unwrapOr_def getOrElse_def eff_defs)
  have h4:
     "quiet (Err 1 JNull) \<and>
      unwrapOr (Err 1 JNull) (JBoolean True) (0::nat) = (Inr (JBoolean True), 0)"
    using getOrElse_is_unwrapOr_total_on_quiet_values [where r = "Err 1 JNull" and d = "JBoolean True" and s = "0::nat", THEN conjunct2, THEN conjunct2, THEN conjunct2, THEN conjunct1]
    by (simp add: Ok_def Err_def guard_simps quiet_JObject returns_def unwrapOr_def getOrElse_def eff_defs)
  have h5:
     "isOk (JObject 1 [(''type'', Accessor (Inl (Thrown JNull)))]) None (0::nat) = (Inl (Thrown JNull), 0) \<and>
      unwrapOr (JObject 1 [(''type'', Accessor (Inl (Thrown JNull)))]) JNull (0::nat) = (Inl (Thrown JNull), 0)"
    using getOrElse_is_unwrapOr_total_on_quiet_values [where r = "JObject 1 [(''type'', Accessor (Inl (Thrown JNull)))]" and d = JNull and s = "0::nat" and t = "Thrown JNull", THEN conjunct2, THEN conjunct2, THEN conjunct2, THEN conjunct2, THEN conjunct2]
    by (simp add: Ok_def Err_def guard_simps quiet_JObject returns_def unwrapOr_def getOrElse_def eff_defs)
  have h6:
     "isOk (JObject 1 [(''type'', Data (JString ''ok'')), (''value'', Accessor (Inl (Thrown JNull)))]) None (0::nat) = (Inr True, 0) \<and>
      get (JObject 1 [(''type'', Data (JString ''ok'')), (''value'', Accessor (Inl (Thrown JNull)))]) ''value'' = Inl (Thrown JNull) \<and>
      unwrapOr (JObject 1 [(''type'', Data (JString ''ok'')), (''value'', Accessor (Inl (Thrown JNull)))]) JNull (0::nat) = (Inl (Thrown JNull), 0)"
    using getOrElse_is_unwrapOr_total_on_quiet_values [where r = "JObject 1 [(''type'', Data (JString ''ok'')), (''value'', Accessor (Inl (Thrown JNull)))]" and d = JNull and s = "0::nat" and t = "Thrown JNull", THEN conjunct2, THEN conjunct2, THEN conjunct2, THEN conjunct2, THEN conjunct2]
    by (simp add: Ok_def Err_def guard_simps quiet_JObject returns_def unwrapOr_def getOrElse_def eff_defs)
  show ?thesis
    by (simp only: h1 h2 h3 h4 h5 h6 simp_thms)
qed

section \<open>Misuse is thrown\<close>

lemma pending_not_result:
  "isLoading r s = (Inr True, s) \<or> isNotAsked r s = (Inr True, s) \<Longrightarrow>
     isOk r None s = (Inr False, s) \<and> isErr r None s = (Inr False, s)"
  apply (erule disjE)
   apply (rule conjI, erule isLoading_excludes(1), erule isLoading_excludes(2))
  apply (rule conjI, erule isNotAsked_excludes(1), erule isNotAsked_excludes(2))
  done

lemma pending_throws:
  "isLoading r s = (Inr True, s) \<or> isNotAsked r s = (Inr True, s) \<longrightarrow>
     foldResult r onOk onErr s = (Inl (Error ''Invalid result type''), s) \<and>
     bimap \<rho> r okMapper errMapper s = (Inl (Error ''Invalid result type''), s) \<and>
     toPromise r s = (Inl (Error ''Cannot convert Loading or NotAsked to Promise''), s)"
proof
  assume "isLoading r s = (Inr True, s) \<or> isNotAsked r s = (Inr True, s)"
  then have "isOk r None s = (Inr False, s)" and "isErr r None s = (Inr False, s)"
    using pending_not_result [of r s] by simp_all
  then show "foldResult r onOk onErr s = (Inl (Error ''Invalid result type''), s) \<and>
     bimap \<rho> r okMapper errMapper s = (Inl (Error ''Invalid result type''), s) \<and>
     toPromise r s = (Inl (Error ''Cannot convert Loading or NotAsked to Promise''), s)"
    by (simp add: foldResult_def bimap_def toPromise_def eff_defs)
qed

lemma unwrap_throws:
  "isOk r None s = (Inr False, s) \<longrightarrow>
     unwrap r s = (Inl (Error ''Tried to unwrap a non-ok result''), s)"
  by (simp add: unwrap_def eff_defs)

text \<open>
  Claim C6. On every Loading or NotAsked input, \<^verbatim>\<open>fold\<close>, \<^verbatim>\<open>bimap\<close> and \<^verbatim>\<open>toPromise\<close> throw an
  \<^verbatim>\<open>Error\<close>: the run ends in a thrown value, not in a returned Err (nor in a rejected
  promise), and no handler or mapper is called. \<^verbatim>\<open>unwrap\<close> throws on every input that
  the Ok guard rejects.
\<close>

theorem two_variant_operations_throw_on_pending:
  "(isLoading r s = (Inr True, s) \<or> isNotAsked r s = (Inr True, s) \<longrightarrow>
      foldResult r onOk onErr s = (Inl (Error ''Invalid result type''), s) \<and>
      bimap \<rho> r okMapper errMapper s = (Inl (Error ''Invalid result type''), s) \<and>
      toPromise r s = (Inl (Error ''Cannot convert Loading or NotAsked to Promise''), s)) \<and>
   (isOk r None s = (Inr False, s) \<longrightarrow>
      unwrap r s = (Inl (Error ''Tried to unwrap a non-ok result''), s)) \<and>
   isLoading (Loading \<rho>') s = (Inr True, s) \<and>
   isNotAsked (NotAsked \<rho>') s = (Inr True, s)"
  apply (rule conjI)
   apply (rule pending_throws)
  apply (rule conjI)
   apply (rule unwrap_throws)
  apply simp
  done

theorem two_variant_operations_throw_on_pending_witness:
  "isLoading (Loading 1) (0::nat) = (Inr True, 0) \<and>
   foldResult (Loading 1) (\<lambda>x s. (Inr x, Suc s)) (\<lambda>x s. (Inr x, Suc s)) (0::nat)
     = (Inl (Error ''Invalid result type''), 0) \<and>
   bimap 9 (Loading 1) (\<lambda>x s. (Inr x, Suc s)) (\<lambda>x s. (Inr x, Suc s)) (0::nat)
     = (Inl (Error ''Invalid result type''), 0) \<and>
   toPromise (Loading 1) (0::nat)
     = (Inl (Error ''Cannot convert Loading or NotAsked to Promise''), 0) \<and>
   isNotAsked (NotAsked 2) (0::nat) = (Inr True, 0) \<and>
   toPromise (NotAsked 2) (0::nat)
     = (Inl (Error ''Cannot convert Loading or NotAsked to Promise''), 0) \<and>
   isOk (Err 3 JNull) None (0::nat) = (Inr False, 0) \<and>
   unwrap (Err 3 JNull) (0::nat) = (Inl (Error ''Tried to unwrap a non-ok result''), 0)"
  using
    two_variant_operations_throw_on_pending
      [where r = "Loading 1" and s = "0::nat" and \<rho> = 9
         and onOk = "\<lambda>x s. (Inr x, Suc s)" and onErr = "\<lambda>x s. (Inr x, Suc s)"
         and okMapper = "\<lambda>x s. (Inr x, Suc s)" and errMapper = "\<lambda>x s. (Inr x, Suc s)"]
    two_variant_operations_throw_on_pending [where r = "NotAsked 2" and s = "0::nat"]
    two_variant_operations_throw_on_pending [where r = "Err 3 JNull" and s = "0::nat"]
  by simp

section \<open>Conversions from absent and falsy values\<close>

lemma falsy_values:
  "\<not> truthy v \<longleftrightarrow>
     v = JUndefined \<or> v = JNull \<or> v = JBoolean False \<or> v = JNumber NaN \<or>
     v = JNumber NegZero \<or> v = JNumber (Finite 0) \<or> v = JBigInt 0 \<or> v = JString []"
proof (cases v)
  case (JNumber n)
  then show ?thesis by (cases n) auto
qed auto

lemma nullish_values: "loose_equals_null v \<longleftrightarrow> v = JNull \<or> v = JUndefined"
  by (cases v) auto

lemma Ok_neq_Err: "Ok \<rho> v \<noteq> Err \<rho>' e"
  by (simp add: Ok_def Err_def)

lemma fromNullable_present:
  "fromNullable \<rho> (JNumber (Finite 0)) e = Ok \<rho> (JNumber (Finite 0)) \<and>
   fromNullable \<rho> (JString []) e = Ok \<rho> (JString []) \<and>
   fromNullable \<rho> (JBoolean False) e = Ok \<rho> (JBoolean False)"
  by (simp add: fromNullable_def)

lemma fromNullable_Err_iff:
  "fromNullable \<rho> v e = Err \<rho> e \<longleftrightarrow> v = JNull \<or> v = JUndefined"
  by (simp add: fromNullable_def nullish_values Ok_neq_Err)

lemma fromNullable_Ok_iff:
  "fromNullable \<rho> v e = Ok \<rho> v \<longleftrightarrow> v \<noteq> JNull \<and> v \<noteq> JUndefined"
  using Ok_neq_Err [of \<rho> v \<rho> e] by (auto simp: fromNullable_def nullish_values)

lemma fromFalsy_falsy: "\<not> truthy v \<longrightarrow> fromFalsy \<rho> v e = Err \<rho> e"
  by (simp add: fromFalsy_def)

lemma fromFalsy_truthy: "truthy v \<longrightarrow> fromFalsy \<rho> v e = Ok \<rho> v"
  by (simp add: fromFalsy_def)

lemma fromFalsy_listed:
  "fromFalsy \<rho> (JNumber (Finite 0)) e = Err \<rho> e \<and>
   fromFalsy \<rho> (JString []) e = Err \<rho> e \<and>
   fromFalsy \<rho> (JBoolean False) e = Err \<rho> e \<and>
   fromFalsy \<rho> JNull e = Err \<rho> e \<and>
   fromFalsy \<rho> JUndefined e = Err \<rho> e \<and>
   fromFalsy \<rho> (JNumber NaN) e = Err \<rho> e"
  by (simp add: fromFalsy_def)

text \<open>
  Claim C7. \<^verbatim>\<open>fromNullable\<close> keeps \<^verbatim>\<open>0\<close>, the empty string and \<^verbatim>\<open>false\<close> as Ok of that value, and
  returns \<^verbatim>\<open>Err(e)\<close> exactly when the value is \<^verbatim>\<open>null\<close> or \<^verbatim>\<open>undefined\<close>. \<^verbatim>\<open>fromFalsy\<close> returns
  \<^verbatim>\<open>Err(e)\<close> on every falsy value and \<^verbatim>\<open>Ok(v)\<close> on every truthy one; the falsy values are
  \<^verbatim>\<open>undefined\<close>, \<^verbatim>\<open>null\<close>, \<^verbatim>\<open>false\<close>, \<^verbatim>\<open>NaN\<close>, both zeros, the zero BigInt and the empty
  string.
\<close>

theorem fromNullable_keeps_falsy_fromFalsy_rejects:
  "(fromNullable \<rho> (JNumber (Finite 0)) e = Ok \<rho> (JNumber (Finite 0)) \<and>
    fromNullable \<rho> (JString []) e = Ok \<rho> (JString []) \<and>
    fromNullable \<rho> (JBoolean False) e = Ok \<rho> (JBoolean False)) \<and>
   (fromNullable \<rho> v e = Err \<rho> e \<longleftrightarrow> v = JNull \<or> v = JUndefined) \<and>
   (fromNullable \<rho> v e = Ok \<rho> v \<longleftrightarrow> v \<noteq> JNull \<and> v \<noteq> JUndefined) \<and>
   (\<not> truthy v \<longrightarrow> fromFalsy \<rho> v e = Err \<rho> e) \<and>
   (truthy v \<longrightarrow> fromFalsy \<rho> v e = Ok \<rho> v) \<and>
   (\<not> truthy v \<longleftrightarrow>
      v = JUndefined \<or> v = JNull \<or> v = JBoolean False \<or> v = JNumber NaN \<or>
      v = JNumber NegZero \<or> v = JNumber (Finite 0) \<or> v = JBigInt 0 \<or> v = JString []) \<and>
   (fromFalsy \<rho> (JNumber (Finite 0)) e = Err \<rho> e \<and>
    fromFalsy \<rho> (JString []) e = Err \<rho> e \<and>
    fromFalsy \<rho> (JBoolean False) e = Err \<rho> e \<and>
    fromFalsy \<rho> JNull e = Err \<rho> e \<and>
    fromFalsy \<rho> JUndefined e = Err \<rho> e \<and>
    fromFalsy \<rho> (JNumber NaN) e = Err \<rho> e)"
  apply (rule conjI)
   apply (rule fromNullable_present)
  apply (rule conjI)
   apply (rule fromNullable_Err_iff)
  apply (rule conjI)
   apply (rule fromNullable_Ok_iff)
  apply (rule conjI)
   apply (rule fromFalsy_falsy)
  apply (rule conjI)
   apply (rule fromFalsy_truthy)
  apply (rule conjI)
   apply (rule falsy_values)
  apply (rule fromFalsy_listed)
  done

theorem fromNullable_keeps_falsy_fromFalsy_rejects_witness:
  "\<not> truthy (JNumber NegZero) \<and>
   fromFalsy 1 (JNumber NegZero) (JString ''e'') = Err 1 (JString ''e'') \<and>
   fromNullable 1 (JNumber NegZero) (JString ''e'') = Ok 1 (JNumber NegZero) \<and>
   truthy (JNumber (Finite 1)) \<and>
   fromFalsy 1 (JNumber (Finite 1)) (JString ''e'') = Ok 1 (JNumber (Finite 1)) \<and>
   fromNullable 1 JUndefined (JString ''e'') = Err 1 (JString ''e'')"
  using
    fromNullable_keeps_falsy_fromFalsy_rejects
      [where v = "JNumber NegZero" and \<rho> = 1 and e = "JString ''e''"]
    fromNullable_keeps_falsy_fromFalsy_rejects
      [where v = "JNumber (Finite 1)" and \<rho> = 1 and e = "JString ''e''"]
    fromNullable_keeps_falsy_fromFalsy_rejects
      [where v = JUndefined and \<rho> = 1 and e = "JString ''e''"]
  by simp

section \<open>The two nullish conversions\<close>

lemma fromNullable_fromNullish: "fromNullable \<rho> v e = fromNullish \<rho> v e"
  by (simp add: fromNullable_def fromNullish_def)

lemma fromNullable_alike_fromNullish: "alike (fromNullable \<rho> v e) (fromNullish \<rho>' v e)"
  by (simp add: fromNullable_def fromNullish_def alike_Ok alike_Err)

lemma fromNullish_nullish:
  "v = JNull \<or> v = JUndefined \<longrightarrow>
     fromNullable \<rho> v e = Err \<rho> e \<and> fromNullish \<rho> v e = Err \<rho> e"
  by (auto simp: fromNullable_def fromNullish_def)

lemma fromNullish_present:
  "v \<noteq> JNull \<and> v \<noteq> JUndefined \<longrightarrow>
     fromNullable \<rho> v e = Ok \<rho> v \<and> fromNullish \<rho> v e = Ok \<rho> v"
  by (simp add: fromNullable_def fromNullish_def nullish_values)

text \<open>
  Claim C8. \<^verbatim>\<open>fromNullable\<close> and \<^verbatim>\<open>fromNullish\<close> agree on every value and error: they build
  the same variant (the same object when they are given the same identity for it, alike
  objects in any case), \<^verbatim>\<open>Err(e)\<close> exactly when the value is \<^verbatim>\<open>null\<close> or \<^verbatim>\<open>undefined\<close> and
  \<^verbatim>\<open>Ok(v)\<close> otherwise.
\<close>

theorem fromNullable_same_as_fromNullish:
  "fromNullable \<rho> v e = fromNullish \<rho> v e \<and>
   alike (fromNullable \<rho> v e) (fromNullish \<rho>' v e) \<and>
   (v = JNull \<or> v = JUndefined \<longrightarrow>
      fromNullable \<rho> v e = Err \<rho> e \<and> fromNullish \<rho> v e = Err \<rho> e) \<and>
   (v \<noteq> JNull \<and> v \<noteq> JUndefined \<longrightarrow>
      fromNullable \<rho> v e = Ok \<rho> v \<and> fromNullish \<rho> v e = Ok \<rho> v)"
  apply (rule conjI)
   apply (rule fromNullable_fromNullish)
  apply (rule conjI)
   apply (rule fromNullable_alike_fromNullish)
  apply (rule conjI)
   apply (rule fromNullish_nullish)
  apply (rule fromNullish_present)
  done

theorem fromNullable_same_as_fromNullish_witness:
  "fromNullable 1 JNull (JString ''e'') = Err 1 (JString ''e'') \<and>
   fromNullish 1 JNull (JString ''e'') = Err 1 (JString ''e'') \<and>
   JBoolean False \<noteq> JNull \<and> JBoolean False \<noteq> JUndefined \<and>
   fromNullable 1 (JBoolean False) (JString ''e'') = Ok 1 (JBoolean False) \<and>
   fromNullish 2 (JBoolean False) (JString ''e'') = Ok 2 (JBoolean False)"
  using
    fromNullable_same_as_fromNullish [where v = JNull and \<rho> = 1 and e = "JString ''e''"]
    fromNullable_same_as_fromNullish [where v = "JBoolean False" and \<rho> = 1 and e = "JString ''e''"]
    fromNullable_same_as_fromNullish [where v = "JBoolean False" and \<rho> = 2 and e = "JString ''e''"]
  by simp

section \<open>Monad laws\<close>

lemma get_value_cases: "(\<exists>x. get v ''value'' = Inr x) \<or> (\<exists>e. get v ''value'' = Inl e)"
  by (cases "get v ''value''") simp_all

lemma flatMapOk_left_identity: "flatMapOk (Ok \<rho> v) f s = f v s"
  by (simp add: flatMapOk_def eff_defs split: prod.splits sum.splits)

lemma flatMapOk_Ok: "flatMapOk (Ok \<rho>' v) (\<lambda>x. ret (Ok \<rho> x)) s = (Inr (Ok \<rho> v), s)"
  by (simp add: flatMapOk_def eff_defs)

lemma flatMapOk_right_identity:
  "r = Ok \<rho>' v \<or> r = Err \<rho>' e \<or> r = Loading \<rho>' \<or> r = NotAsked \<rho>' \<longrightarrow>
     same_outcome (flatMapOk r (\<lambda>x. ret (Ok \<rho> x)) s) (Inr r, s)"
proof
  assume "r = Ok \<rho>' v \<or> r = Err \<rho>' e \<or> r = Loading \<rho>' \<or> r = NotAsked \<rho>'"
  then show "same_outcome (flatMapOk r (\<lambda>x. ret (Ok \<rho> x)) s) (Inr r, s)"
  proof (elim disjE)
    assume "r = Ok \<rho>' v"
    then show ?thesis by (simp add: flatMapOk_Ok same_outcome_def alike_Ok)
  next
    assume "r = Err \<rho>' e"
    then show ?thesis by (simp add: flatMapOk_pass same_outcome_def)
  next
    assume "r = Loading \<rho>'"
    then show ?thesis by (simp add: flatMapOk_pass same_outcome_def)
  next
    assume "r = NotAsked \<rho>'"
    then show ?thesis by (simp add: flatMapOk_pass same_outcome_def)
  qed
qed

lemma flatMapOk_True:
  "isOk r None s = (Inr True, s) \<Longrightarrow> get r ''value'' = Inr x \<Longrightarrow> flatMapOk r f s = f x s"
  by (simp add: flatMapOk_def andThen_def lift_def)

lemma flatMapOk_True_throw:
  "isOk r None s = (Inr True, s) \<Longrightarrow> get r ''value'' = Inl e \<Longrightarrow> flatMapOk r f s = (Inl e, s)"
  by (simp add: flatMapOk_def andThen_def lift_def)

lemma flatMapOk_assoc:
  "andThen (flatMapOk r f) (\<lambda>r'. flatMapOk r' g) s
     = flatMapOk r (\<lambda>x. andThen (f x) (\<lambda>r'. flatMapOk r' g)) s"
proof -
  from isOk_None_cases [of r s] show ?thesis
  proof (elim disjE exE)
    assume 1: "isOk r None s = (Inr True, s)"
    from get_value_cases [of r] show ?thesis
    proof (elim disjE exE)
      fix x assume x: "get r ''value'' = Inr x"
      show ?thesis by (simp add: flatMapOk_True [OF 1 x] andThen_def)
    next
      fix e assume e: "get r ''value'' = Inl e"
      show ?thesis by (simp add: flatMapOk_True_throw [OF 1 e] andThen_Inl)
    qed
  next
    assume 2: "isOk r None s = (Inr False, s)"
    then have "flatMapOk r f s = (Inr r, s)" and "flatMapOk r g s = (Inr r, s)"
      and "flatMapOk r (\<lambda>x. andThen (f x) (\<lambda>r'. flatMapOk r' g)) s = (Inr r, s)"
      by (simp_all add: flatMapOk_pass)
    then show ?thesis by (simp add: andThen_Inr)
  next
    fix e assume 3: "isOk r None s = (Inl e, s)"
    show ?thesis by (simp add: flatMapOk_Inl [OF 3] andThen_Inl)
  qed
qed

text \<open>
  Claim C4. The monad laws of \<^verbatim>\<open>flatMapOk\<close>. Left identity: \<^verbatim>\<open>flatMapOk(Ok(v), f)\<close> runs as
  \<^verbatim>\<open>f(v)\<close>. Right identity: on every variant \<open>r\<close> the constructors build,
  \<^verbatim>\<open>flatMapOk(r, Ok)\<close> returns a value alike \<open>r\<close> (for an Ok a new object with the same
  properties, otherwise \<open>r\<close> itself). Associativity:
  \<^verbatim>\<open>flatMapOk(flatMapOk(r, f), g)\<close> runs as \<^verbatim>\<open>flatMapOk(r, x => flatMapOk(f(x), g))\<close>, on every
  value \<open>r\<close> and for all functions \<open>f\<close> and \<open>g\<close>, which may throw and act on the world.
\<close>

theorem flatMapOk_monad_laws:
  "flatMapOk (Ok \<rho> v) f s = f v s \<and>
   (r = Ok \<rho>' v \<or> r = Err \<rho>' e \<or> r = Loading \<rho>' \<or> r = NotAsked \<rho>' \<longrightarrow>
      same_outcome (flatMapOk r (\<lambda>x. ret (Ok \<rho> x)) s) (Inr r, s)) \<and>
   andThen (flatMapOk r f) (\<lambda>r'. flatMapOk r' g) s
     = flatMapOk r (\<lambda>x. andThen (f x) (\<lambda>r'. flatMapOk r' g)) s"
  apply (rule conjI)
   apply (rule flatMapOk_left_identity)
  apply (rule conjI)
   apply (rule flatMapOk_right_identity)
  apply (rule flatMapOk_assoc)
  done

theorem flatMapOk_monad_laws_witness:
  "flatMapOk (Ok 1 (JNumber (Finite 2))) (\<lambda>x s. (Inr (Err 5 x), Suc s)) (0::nat)
     = (Inr (Err 5 (JNumber (Finite 2))), 1) \<and>
   flatMapOk (Ok 1 (JNumber (Finite 2))) (\<lambda>x. ret (Ok 7 x)) (0::nat)
     = (Inr (Ok 7 (JNumber (Finite 2))), 0) \<and>
   same_outcome (Inr (Ok 7 (JNumber (Finite 2))), 0::nat) (Inr (Ok 1 (JNumber (Finite 2))), 0) \<and>
   andThen (flatMapOk (Ok 1 (JNumber (Finite 2))) (\<lambda>x s. (Inr (Ok 5 (JString ''a'')), Suc s)))
       (\<lambda>r'. flatMapOk r' (\<lambda>x s. (Inr (Err 6 x), s + 10))) (0::nat)
     = (Inr (Err 6 (JString ''a'')), 11)"
  using
    flatMapOk_monad_laws
      [where \<rho> = 1 and v = "JNumber (Finite 2)" and s = "0::nat"
         and f = "\<lambda>x s. (Inr (Err 5 x), Suc s)" and r = JNull
         and g = "\<lambda>x s. (Inr x, s)"]
    flatMapOk_monad_laws
      [where \<rho> = 7 and \<rho>' = 1 and v = "JNumber (Finite 2)" and s = "0::nat"
         and r = "Ok 1 (JNumber (Finite 2))"
         and f = "\<lambda>x s. (Inr (Ok 5 (JString ''a'')), Suc s)"
         and g = "\<lambda>x s. (Inr (Err 6 x), s + 10)"]
  by (simp add: flatMapOk_def eff_defs same_outcome_def alike_Ok)

section \<open>Functor laws\<close>

lemma mapOk_True:
  "isOk r None s = (Inr True, s) \<Longrightarrow> get r ''value'' = Inr x \<Longrightarrow>
     mapOk \<rho> r f s = andThen (f x) (\<lambda>y. ret (Ok \<rho> y)) s"
  by (simp add: mapOk_def andThen_def lift_def)

lemma mapOk_Ok: "mapOk \<rho> (Ok \<rho>' v) f s = andThen (f v) (\<lambda>y. ret (Ok \<rho> y)) s"
  by (rule mapOk_True) simp_all

lemma mapOk_True_throw:
  "isOk r None s = (Inr True, s) \<Longrightarrow> get r ''value'' = Inl e \<Longrightarrow> mapOk \<rho> r f s = (Inl e, s)"
  by (simp add: mapOk_def andThen_def lift_def)

lemma mapOk_compose_True:
  assumes ok: "isOk r None s = (Inr True, s)" and x: "get r ''value'' = Inr x"
  shows "\<exists>t. (\<exists>e. andThen (mapOk \<rho>a r f) (\<lambda>r'. mapOk \<rho>b r' g) s = (Inl e, t) \<and>
                 mapOk \<rho>c r (\<lambda>x. andThen (f x) g) s = (Inl e, t)) \<or>
             (\<exists>z. andThen (mapOk \<rho>a r f) (\<lambda>r'. mapOk \<rho>b r' g) s = (Inr (Ok \<rho>b z), t) \<and>
                 mapOk \<rho>c r (\<lambda>x. andThen (f x) g) s = (Inr (Ok \<rho>c z), t))"
proof -
  obtain a s1 where fx: "f x s = (a, s1)" by (cases "f x s")
  show ?thesis
  proof (cases a)
    case (Inl e)
    with fx have "mapOk \<rho>a r f s = (Inl e, s1)"
      by (simp add: mapOk_True [OF ok x] andThen_Inl)
    then have l: "andThen (mapOk \<rho>a r f) (\<lambda>r'. mapOk \<rho>b r' g) s = (Inl e, s1)"
      by (rule andThen_Inl)
    from fx Inl have "andThen (f x) g s = (Inl e, s1)" by (simp add: andThen_Inl)
    then have "mapOk \<rho>c r (\<lambda>x. andThen (f x) g) s = (Inl e, s1)"
      by (simp add: mapOk_True [OF ok x] andThen_Inl)
    with l show ?thesis by blast
  next
    case (Inr y)
    with fx have fy: "f x s = (Inr y, s1)" by simp
    then have "mapOk \<rho>a r f s = (Inr (Ok \<rho>a y), s1)"
      by (simp add: mapOk_True [OF ok x] andThen_Inr ret_def)
    then have l: "andThen (mapOk \<rho>a r f) (\<lambda>r'. mapOk \<rho>b r' g) s = mapOk \<rho>b (Ok \<rho>a y) g s1"
      by (rule andThen_Inr)
    have m: "andThen (f x) g s = g y s1" using fy by (rule andThen_Inr)
    obtain b s2 where gy: "g y s1 = (b, s2)" by (cases "g y s1")
    show ?thesis
    proof (cases b)
      case (Inl e)
      with gy have "mapOk \<rho>b (Ok \<rho>a y) g s1 = (Inl e, s2)"
        by (simp add: mapOk_Ok andThen_Inl)
      moreover from gy Inl m have "mapOk \<rho>c r (\<lambda>x. andThen (f x) g) s = (Inl e, s2)"
        by (simp add: mapOk_True [OF ok x] andThen_Inl)
      ultimately show ?thesis using l by auto
    next
      case (Inr z)
      with gy have "mapOk \<rho>b (Ok \<rho>a y) g s1 = (Inr (Ok \<rho>b z), s2)"
        by (simp add: mapOk_Ok andThen_Inr ret_def)
      moreover from gy Inr m have "mapOk \<rho>c r (\<lambda>x. andThen (f x) g) s = (Inr (Ok \<rho>c z), s2)"
        by (simp add: mapOk_True [OF ok x] andThen_Inr ret_def)
      ultimately show ?thesis using l by auto
    qed
  qed
qed

lemma mapOk_compose:
  "same_outcome (andThen (mapOk \<rho>a r f) (\<lambda>r'. mapOk \<rho>b r' g) s)
                (mapOk \<rho>c r (\<lambda>x. andThen (f x) g) s)"
proof -
  from isOk_None_cases [of r s] show ?thesis
  proof (elim disjE exE)
    assume 1: "isOk r None s = (Inr True, s)"
    from get_value_cases [of r] show ?thesis
    proof (elim disjE exE)
      fix x assume x: "get r ''value'' = Inr x"
      from mapOk_compose_True [OF 1 x, of \<rho>a f \<rho>b g \<rho>c]
      show ?thesis by (auto simp: same_outcome_def alike_Ok)
    next
      fix e assume e: "get r ''value'' = Inl e"
      show ?thesis
        by (simp add: mapOk_True_throw [OF 1 e] andThen_Inl same_outcome_def)
    qed
  next
    assume 2: "isOk r None s = (Inr False, s)"
    then have "mapOk \<rho>a r f s = (Inr r, s)" and "mapOk \<rho>b r g s = (Inr r, s)"
      and "mapOk \<rho>c r (\<lambda>x. andThen (f x) g) s = (Inr r, s)"
      by (simp_all add: mapOk_pass)
    then show ?thesis by (simp add: andThen_Inr same_outcome_def)
  next
    fix e assume 3: "isOk r None s = (Inl e, s)"
    show ?thesis by (simp add: mapOk_Inl [OF 3] andThen_Inl same_outcome_def)
  qed
qed

lemma mapOk_compose_same_ref:
  "andThen (mapOk \<rho>a r f) (\<lambda>r'. mapOk \<rho> r' g) s = mapOk \<rho> r (\<lambda>x. andThen (f x) g) s"
proof -
  from isOk_None_cases [of r s] show ?thesis
  proof (elim disjE exE)
    assume 1: "isOk r None s = (Inr True, s)"
    from get_value_cases [of r] show ?thesis
    proof (elim disjE exE)
      fix x assume x: "get r ''value'' = Inr x"
      from mapOk_compose_True [OF 1 x, of \<rho>a f \<rho> g \<rho>]
      show ?thesis by auto
    next
      fix e assume e: "get r ''value'' = Inl e"
      show ?thesis by (simp add: mapOk_True_throw [OF 1 e] andThen_Inl)
    qed
  next
    assume 2: "isOk r None s = (Inr False, s)"
    then have "mapOk \<rho>a r f s = (Inr r, s)" and "mapOk \<rho> r g s = (Inr r, s)"
      and "mapOk \<rho> r (\<lambda>x. andThen (f x) g) s = (Inr r, s)"
      by (simp_all add: mapOk_pass)
    then show ?thesis by (simp add: andThen_Inr)
  next
    fix e assume 3: "isOk r None s = (Inl e, s)"
    show ?thesis by (simp add: mapOk_Inl [OF 3] andThen_Inl)
  qed
qed

lemma mapOk_identity:
  "r = Ok \<rho>' v \<or> r = Err \<rho>' e \<or> r = Loading \<rho>' \<or> r = NotAsked \<rho>' \<longrightarrow>
     same_outcome (mapOk \<rho> r ret s) (Inr r, s)"
proof
  assume "r = Ok \<rho>' v \<or> r = Err \<rho>' e \<or> r = Loading \<rho>' \<or> r = NotAsked \<rho>'"
  then show "same_outcome (mapOk \<rho> r ret s) (Inr r, s)"
  proof (elim disjE)
    assume "r = Ok \<rho>' v"
    then show ?thesis by (simp add: mapOk_Ok andThen_def ret_def same_outcome_def alike_Ok)
  next
    assume "r = Err \<rho>' e"
    then show ?thesis by (simp add: mapOk_pass same_outcome_def)
  next
    assume "r = Loading \<rho>'"
    then show ?thesis by (simp add: mapOk_pass same_outcome_def)
  next
    assume "r = NotAsked \<rho>'"
    then show ?thesis by (simp add: mapOk_pass same_outcome_def)
  qed
qed

lemma other_channel_not_ok:
  "isErr r None s = (Inr True, s) \<or> isLoading r s = (Inr True, s) \<or>
   isNotAsked r s = (Inr True, s) \<Longrightarrow> isOk r None s = (Inr False, s)"
  by (elim disjE) (erule isErr_excludes(1), erule isLoading_excludes(1), erule isNotAsked_excludes(1))

lemma mapOk_other_channel:
  "isErr r None s = (Inr True, s) \<or> isLoading r s = (Inr True, s) \<or>
   isNotAsked r s = (Inr True, s) \<longrightarrow> mapOk \<rho> r f s = (Inr r, s)"
  by (rule impI, rule mapOk_pass, erule other_channel_not_ok)

text \<open>
  Claim C5. The functor laws of \<^verbatim>\<open>mapOk\<close>. Composition: \<^verbatim>\<open>mapOk(mapOk(r, f), g)\<close> and
  \<^verbatim>\<open>mapOk(r, x => g(f(x)))\<close> end in the same world with alike results (the same result,
  when the object built last is the same), on every value \<open>r\<close>. Identity: on every
  variant \<open>r\<close> the constructors build, \<^verbatim>\<open>mapOk(r, x => x)\<close> returns a value alike \<open>r\<close>.
  Outside the success channel: on every input that is an Err, a Loading or a NotAsked,
  \<^verbatim>\<open>mapOk(r, f)\<close> returns \<open>r\<close> itself and leaves the world as it was, so \<open>f\<close> is not
  called.
\<close>

theorem mapOk_functor_laws:
  "same_outcome (andThen (mapOk \<rho>a r f) (\<lambda>r'. mapOk \<rho>b r' g) s)
                (mapOk \<rho>c r (\<lambda>x. andThen (f x) g) s) \<and>
   andThen (mapOk \<rho>a r f) (\<lambda>r'. mapOk \<rho> r' g) s = mapOk \<rho> r (\<lambda>x. andThen (f x) g) s \<and>
   (r = Ok \<rho>' v \<or> r = Err \<rho>' e \<or> r = Loading \<rho>' \<or> r = NotAsked \<rho>' \<longrightarrow>
      same_outcome (mapOk \<rho> r ret s) (Inr r, s)) \<and>
   (isErr r None s = (Inr True, s) \<or> isLoading r s = (Inr True, s) \<or>
    isNotAsked r s = (Inr True, s) \<longrightarrow> mapOk \<rho> r f s = (Inr r, s))"
  apply (rule conjI)
   apply (rule mapOk_compose)
  apply (rule conjI)
   apply (rule mapOk_compose_same_ref)
  apply (rule conjI)
   apply (rule mapOk_identity)
  apply (rule mapOk_other_channel)
  done

theorem mapOk_functor_laws_witness:
  "mapOk 8 (Ok 1 (JNumber (Finite 2))) ret (0::nat) = (Inr (Ok 8 (JNumber (Finite 2))), 0) \<and>
   same_outcome (Inr (Ok 8 (JNumber (Finite 2))), 0::nat) (Inr (Ok 1 (JNumber (Finite 2))), 0) \<and>
   isErr (Err 1 JNull) None (0::nat) = (Inr True, 0) \<and>
   mapOk 8 (Err 1 JNull) (\<lambda>x s. (Inl (Thrown x), Suc s)) (0::nat) = (Inr (Err 1 JNull), 0) \<and>
   andThen (mapOk 3 (Ok 1 (JNumber (Finite 2))) (\<lambda>x s. (Inr (JString ''a''), Suc s)))
       (\<lambda>r'. mapOk 8 r' (\<lambda>x s. (Inr (JBoolean (x = JString ''a'')), s + 10))) (0::nat)
     = (Inr (Ok 8 (JBoolean True)), 11)"
  using
    mapOk_functor_laws
      [where \<rho> = 8 and \<rho>' = 1 and v = "JNumber (Finite 2)" and s = "0::nat"
         and r = "Ok 1 (JNumber (Finite 2))" and \<rho>a = 3
         and f = "\<lambda>x s. (Inr (JString ''a''), Suc s)"
         and g = "\<lambda>x s. (Inr (JBoolean (x = JString ''a'')), s + 10)"]
    mapOk_functor_laws
      [where \<rho> = 8 and s = "0::nat" and r = "Err 1 JNull"
         and f = "\<lambda>x s. (Inl (Thrown x), Suc s)"]
  by (simp add: mapOk_def eff_defs same_outcome_def alike_Ok Err_def isErr_JObject)

section \<open>Equality of outcomes\<close>

lemma isRemoteResult_Inl:
  "isLoading v s = (Inl e, s) \<Longrightarrow> isRemoteResult v vv ev s = (Inl e, s)"
  by (simp add: isRemoteResult_def eff_defs)

lemma isLoading_None_cases:
  "isLoading v s = (Inr True, s) \<or> isLoading v s = (Inr False, s) \<or>
   (\<exists>e. isLoading v s = (Inl e, s))"
  by (cases v) (simp_all add: guard_simps split: sum.splits)

lemma isNotAsked_None_cases:
  "isNotAsked v s = (Inr True, s) \<or> isNotAsked v s = (Inr False, s) \<or>
   (\<exists>e. isNotAsked v s = (Inl e, s))"
  by (cases v) (simp_all add: guard_simps split: sum.splits)

lemma isResult_None_cases:
  "isResult v None None s = (Inr True, s) \<or> isResult v None None s = (Inr False, s) \<or>
   (\<exists>e. isResult v None None s = (Inl e, s))"
proof -
  from isOk_None_cases [of v s] show ?thesis
  proof (elim disjE exE)
    assume ok: "isOk v None s = (Inr True, s)"
    then show ?thesis by (simp add: isResult_ok [OF ok])
  next
    assume no: "isOk v None s = (Inr False, s)"
    from isErr_None_cases [of v s] show ?thesis
    proof (elim disjE exE)
      assume err: "isErr v None s = (Inr True, s)"
      then show ?thesis by (simp add: isResult_err [OF err])
    next
      assume ne: "isErr v None s = (Inr False, s)"
      show ?thesis by (simp add: isResult_none [OF no ne])
    next
      fix e assume th: "isErr v None s = (Inl e, s)"
      show ?thesis by (simp add: isResult_err_Inl [OF no th])
    qed
  next
    fix e assume th: "isOk v None s = (Inl e, s)"
    show ?thesis by (simp add: isResult_Inl [OF th])
  qed
qed

lemma isRemoteResult_None_cases:
  "isRemoteResult v None None s = (Inr True, s) \<or>
   isRemoteResult v None None s = (Inr False, s) \<or>
   (\<exists>e. isRemoteResult v None None s = (Inl e, s))"
proof -
  from isLoading_None_cases [of v s] show ?thesis
  proof (elim disjE exE)
    assume "isLoading v s = (Inr True, s)"
    then show ?thesis by (simp add: isRemoteResult_Loading)
  next
    assume l: "isLoading v s = (Inr False, s)"
    from isNotAsked_None_cases [of v s] show ?thesis
    proof (elim disjE exE)
      assume "isNotAsked v s = (Inr True, s)"
      then show ?thesis by (simp add: isRemoteResult_NotAsked)
    next
      assume n: "isNotAsked v s = (Inr False, s)"
      have "isRemoteResult v None None s = isResult v None None s"
        using l n by (simp add: isRemoteResult_def eff_defs)
      with isResult_None_cases [of v s] show ?thesis by simp
    next
      fix e assume "isNotAsked v s = (Inl e, s)"
      with l show ?thesis by (simp add: isRemoteResult_def eff_defs)
    qed
  next
    fix e assume "isLoading v s = (Inl e, s)"
    then show ?thesis by (simp add: isRemoteResult_Inl)
  qed
qed






















end
